theory Spec2Isabelle
  imports Main "HOL-Library.Sublist"
begin

section \<open>Data model\<close>

text \<open>
  The types of \<^verbatim>\<open>types.ts\<close> and the state of the \<^verbatim>\<open>App\<close> component that keeps the
  History Ledger (the component that follows \<^verbatim>\<open>ExperimentTimeline\<close> in
  \<^verbatim>\<open>src/components/ExperimentTimeline.tsx\<close>); the earlier \<^verbatim>\<open>App\<close> of
  \<^verbatim>\<open>src/unnamed/part_000\<close> has a section of its own below. JavaScript numbers are only stored, copied and
  rendered by the code under study, so the type of numbers is the parameter \<open>'n\<close>.
  Strings are lists of characters; \<^verbatim>\<open>null\<close> and \<^verbatim>\<open>undefined\<close> are \<open>None\<close>.
\<close>

datatype ExperimentStatus = NORMAL | WARNING | CRITICAL

record AnalysisResult =
  status :: ExperimentStatus
  observation :: string
  deduction :: string
  recommendation :: string

datatype ThinkingLevel = LOW | HIGH

record AnalysisState =
  isLoading :: bool
  result :: "AnalysisResult option"
  error :: "string option"

record 'n TelemetryData =
  temperature :: 'n
  pressure :: 'n

record 'n HistoryItem =
  timestamp :: nat
  item_telemetry :: "'n TelemetryData"
  item_analysis :: AnalysisResult

datatype InputMode = UPLOAD | CAMERA

datatype UploadType = IMAGE | VIDEO

text \<open>
  The browser objects the component holds. A media stream is the list of its track
  identifiers; a video element has a \<^verbatim>\<open>srcObject\<close> and a \<^verbatim>\<open>readyState\<close>. \<open>Canvas2D\<close> is what
  creating a canvas, drawing on it and encoding it does at the moment: no 2d context, an
  exception while drawing or encoding, or the data URL produced. \<open>Capabilities\<close> records which
  controls \<^verbatim>\<open>track.getCapabilities()\<close> reports.
\<close>

record VideoEl =
  srcObject :: "nat list option"
  readyState :: nat

datatype Canvas2D = NoContext | DrawThrows | Encoded string

datatype Capabilities = Capabilities (has_zoom: bool) (has_focusMode: bool) (has_focusDistance: bool)

datatype ImageLoad = LoadError | Loaded Canvas2D

datatype Fetch = FetchFails | ReaderFails | Fetched string

record File =
  file_type :: string
  object_url :: string

text \<open>
  How a promise ends: resolved with a value, rejected with an error whose \<^verbatim>\<open>message\<close> may be
  missing, or never settled.
\<close>

datatype 'a Promise = Resolved 'a | Rejected "string option" | Pending

text \<open>
  One render of \<^verbatim>\<open>App\<close> binds the state values as constants; every closure created in
  that render (\<^verbatim>\<open>handleAnalyze\<close>, \<^verbatim>\<open>captureFrame\<close>, the timer callback) reads these constants,
  whatever the state has become when the closure runs. \<open>Render\<close> holds the constants that
  these closures read.
\<close>

record 'n Render =
  r_inputMode :: InputMode
  r_uploadType :: "UploadType option"
  r_imagePreview :: "string option"
  r_context :: string
  r_thinkingLevel :: ThinkingLevel
  r_telemetry :: "'n TelemetryData"
  r_isLoading :: bool
  r_isAutoMonitoring :: bool

text \<open>
  A call of \<^verbatim>\<open>handleAnalyze\<close> suspended at \<^verbatim>\<open>await preprocessImage\<close> (\<open>Cycle\<close>), the
  arguments of one call of \<^verbatim>\<open>analyzeExperiment\<close> (\<open>Request\<close>), and a call of \<^verbatim>\<open>handleAnalyze\<close>
  suspended at \<^verbatim>\<open>await analyzeExperiment\<close> (\<open>Flight\<close>).
\<close>

record 'n Cycle =
  cy_env :: "'n Render"
  cy_image :: string

record Request =
  req_context :: string
  req_image :: string
  req_level :: ThinkingLevel

record 'n Flight =
  fl_env :: "'n Render"
  fl_request :: Request

text \<open>
  The state: the \<^verbatim>\<open>useState\<close> values (\<^verbatim>\<open>context\<close> is \<open>contextText\<close>), the refs, the browser
  (live capture tracks, canvas behaviour, wall clock in epoch milliseconds) and the
  suspended asynchronous work. \<open>monitor\<close> is the interval whose id
  \<^verbatim>\<open>monitoringIntervalRef\<close> holds, as the render whose constants its callback reads (\<open>None\<close>:
  no interval is running). \<open>cycles\<close> counts the calls of \<^verbatim>\<open>handleAnalyze\<close>; it is a history
  variable that no code reads. The zoom and focus values are left out: only the
  camera-control handlers and their sliders read them.
\<close>

record 'n App =
  thinkingLevel :: ThinkingLevel
  contextText :: string
  imagePreview :: "string option"
  videoFileSrc :: "string option"
  uploadType :: "UploadType option"
  inputMode :: InputMode
  isCameraActive :: bool
  isAutoMonitoring :: bool
  videoTrack :: "nat option"
  capabilities :: "Capabilities option"
  isGalleryOpen :: bool
  telemetry :: "'n TelemetryData"
  analysis :: AnalysisState
  history :: "'n HistoryItem list"
  webcamRef :: "VideoEl option"
  fileVideoRef :: "VideoEl option"
  monitor :: "'n Render option"
  liveTracks :: "nat set"
  canvas :: Canvas2D
  clock :: nat
  cameraRequests :: nat
  fileReaders :: nat
  preprocessing :: "'n Cycle list"
  inflight :: "'n Flight list"
  cycles :: nat

text \<open>
  The two library renderings the augmented context uses, \<^verbatim>\<open>Number.prototype.toFixed(2)\<close>
  and \<^verbatim>\<open>Date.prototype.toISOString()\<close>, are parameters of the model.
\<close>

record 'n Platform =
  toFixed2 :: "'n \<Rightarrow> string"
  toISOString :: "nat \<Rightarrow> string"

section \<open>JavaScript helpers\<close>

definition truthy :: "string option \<Rightarrow> bool" where
  "truthy v = (case v of None \<Rightarrow> False | Some x \<Rightarrow> x \<noteq> [])"

definition js_or :: "string option \<Rightarrow> string option \<Rightarrow> string option" where
  "js_or a b = (if truthy a then a else b)"

definition startsWith :: "string \<Rightarrow> string \<Rightarrow> bool" where
  "startsWith p s = (take (length p) s = p)"

text \<open>\<^verbatim>\<open>s.split(c)\<close> for a one-character separator.\<close>

fun split :: "char \<Rightarrow> string \<Rightarrow> string list" where
  "split c [] = [[]]"
| "split c (x # xs) =
     (if x = c then [] # split c xs
      else (case split c xs of [] \<Rightarrow> [[x]] | p # ps \<Rightarrow> (x # p) # ps))"

definition remove_nth :: "nat \<Rightarrow> 'a list \<Rightarrow> 'a list" where
  "remove_nth i xs = take i xs @ drop (Suc i) xs"

section \<open>The component's functions\<close>

definition render :: "'n App \<Rightarrow> 'n Render" where
  "render s =
     \<lparr> r_inputMode = inputMode s, r_uploadType = uploadType s,
       r_imagePreview = imagePreview s, r_context = contextText s,
       r_thinkingLevel = thinkingLevel s, r_telemetry = telemetry s,
       r_isLoading = isLoading (analysis s), r_isAutoMonitoring = isAutoMonitoring s \<rparr>"

text \<open>
  The state once the component is mounted: the initial \<^verbatim>\<open>useState\<close> values. The effects
  of the first render change nothing (no ref is attached, \<^verbatim>\<open>isAutoMonitoring\<close> is already
  false, no timer is armed).
\<close>

definition initialApp :: "'n TelemetryData \<Rightarrow> 'n App" where
  "initialApp t0 =
     \<lparr> thinkingLevel = HIGH, contextText = [], imagePreview = None, videoFileSrc = None,
       uploadType = None, inputMode = UPLOAD, isCameraActive = False,
       isAutoMonitoring = False, videoTrack = None, capabilities = None,
       isGalleryOpen = False, telemetry = t0,
       analysis = \<lparr> isLoading = False, result = None, error = None \<rparr>,
       history = [], webcamRef = None, fileVideoRef = None, monitor = None,
       liveTracks = {}, canvas = NoContext, clock = 0, cameraRequests = 0,
       fileReaders = 0, preprocessing = [], inflight = [], cycles = 0 \<rparr>"

subsection \<open>Camera\<close>

text \<open>
  \<^verbatim>\<open>startCamera\<close> up to \<^verbatim>\<open>await getUserMedia\<close>, and its continuation when the stream is
  granted (\<open>cameraGranted\<close>; for a stream with no video track \<^verbatim>\<open>setVideoTrack(undefined)\<close> is
  followed by \<^verbatim>\<open>track.getCapabilities\<close> throwing, which the \<^verbatim>\<open>catch\<close> turns into the alert) or
  refused (\<open>cameraDenied\<close>, the alert). The tracks of a granted stream are live from then on.
\<close>

definition startCamera :: "'n App \<Rightarrow> 'n App" where
  "startCamera s = s\<lparr>cameraRequests := Suc (cameraRequests s)\<rparr>"

definition cameraGranted :: "nat list \<Rightarrow> Capabilities \<Rightarrow> 'n App \<Rightarrow> 'n App" where
  "cameraGranted stream caps s =
     (let s0 = s\<lparr>cameraRequests := cameraRequests s - 1,
                 liveTracks := liveTracks s \<union> set stream\<rparr>
      in case stream of
           [] \<Rightarrow> s0\<lparr>videoTrack := None\<rparr>
         | track # _ \<Rightarrow>
             (let s1 = s0\<lparr>videoTrack := Some track, capabilities := Some caps\<rparr>
              in case webcamRef s1 of
                   None \<Rightarrow> s1
                 | Some v \<Rightarrow> s1\<lparr>webcamRef := Some (v\<lparr>srcObject := Some stream\<rparr>),
                                isCameraActive := True\<rparr>))"

definition cameraDenied :: "'n App \<Rightarrow> 'n App" where
  "cameraDenied s = s\<lparr>cameraRequests := cameraRequests s - 1\<rparr>"

definition stopCamera :: "'n App \<Rightarrow> 'n App" where
  "stopCamera s =
     (case webcamRef s of
        None \<Rightarrow> s
      | Some v \<Rightarrow>
          (let s1 = (case srcObject v of
                       None \<Rightarrow> s
                     | Some stream \<Rightarrow>
                         s\<lparr>liveTracks := liveTracks s - set stream,
                           webcamRef := Some (v\<lparr>srcObject := None\<rparr>)\<rparr>)
           in s1\<lparr>isCameraActive := False, videoTrack := None, capabilities := None\<rparr>))"

definition captureFrame :: "'n Render \<Rightarrow> 'n App \<Rightarrow> string option" where
  "captureFrame r s =
     (let sourceVideo =
            (if r_inputMode r = CAMERA then webcamRef s
             else if r_inputMode r = UPLOAD \<and> r_uploadType r = Some VIDEO then fileVideoRef s
             else None)
      in case sourceVideo of
           None \<Rightarrow> None
         | Some v \<Rightarrow>
             if readyState v < 2 then None
             else (case canvas s of
                     NoContext \<Rightarrow> None
                   | DrawThrows \<Rightarrow> None
                   | Encoded d \<Rightarrow> Some d))"

subsection \<open>Files and gallery\<close>

definition resetAnalysis :: AnalysisState where
  "resetAnalysis = \<lparr> isLoading = False, result = None, error = None \<rparr>"

text \<open>
  \<^verbatim>\<open>handleFileChange\<close>; for an image it starts a \<^verbatim>\<open>FileReader\<close>, whose \<^verbatim>\<open>onloadend\<close> is
  \<open>fileLoaded\<close>.
\<close>

definition handleFileChange :: "File option \<Rightarrow> 'n App \<Rightarrow> 'n App" where
  "handleFileChange file s =
     (case file of
        None \<Rightarrow> s
      | Some f \<Rightarrow>
          (let s1 = s\<lparr>analysis := resetAnalysis\<rparr>;
               s2 = (if truthy (videoFileSrc s) then s1\<lparr>videoFileSrc := None\<rparr> else s1)
           in if startsWith ''video/'' (file_type f)
              then s2\<lparr>videoFileSrc := Some (object_url f), uploadType := Some VIDEO,
                      imagePreview := None, isAutoMonitoring := False\<rparr>
              else s2\<lparr>fileReaders := Suc (fileReaders s2)\<rparr>))"

definition fileLoaded :: "string option \<Rightarrow> 'n App \<Rightarrow> 'n App" where
  "fileLoaded res s =
     s\<lparr>fileReaders := fileReaders s - 1, imagePreview := res, uploadType := Some IMAGE,
       videoFileSrc := None, isAutoMonitoring := False\<rparr>"

definition handleGallerySelect :: "string \<Rightarrow> string \<Rightarrow> 'n App \<Rightarrow> 'n App" where
  "handleGallerySelect exp_context exp_imageUrl s =
     s\<lparr>contextText := exp_context, analysis := resetAnalysis, history := [],
       videoFileSrc := None, imagePreview := Some exp_imageUrl, uploadType := Some IMAGE,
       inputMode := UPLOAD, isAutoMonitoring := False, isGalleryOpen := False\<rparr>"

subsection \<open>Preprocessing and analysis\<close>

definition preprocessImage :: "string \<Rightarrow> ImageLoad \<Rightarrow> string Promise" where
  "preprocessImage source img =
     (case img of
        LoadError \<Rightarrow> Resolved source
      | Loaded NoContext \<Rightarrow> Resolved source
      | Loaded DrawThrows \<Rightarrow> Resolved source
      | Loaded (Encoded d) \<Rightarrow> Resolved d)"

definition ensureBase64 :: "string \<Rightarrow> Fetch \<Rightarrow> string Promise" where
  "ensureBase64 urlOrData f =
     (if startsWith ''data:'' urlOrData then Resolved urlOrData
      else (case f of
              FetchFails \<Rightarrow> Rejected (Some ''Unable to process image. Network or CORS error.'')
            | ReaderFails \<Rightarrow> Rejected None
            | Fetched d \<Rightarrow> Resolved d))"

definition augmentedContext :: "'n Platform \<Rightarrow> string \<Rightarrow> 'n TelemetryData \<Rightarrow> nat \<Rightarrow> string" where
  "augmentedContext P c tel now =
     c @ ''\<newline>\<newline>[REAL-TIME TELEMETRY]\<newline>Temperature: '' @ toFixed2 P (temperature tel)
       @ '' '' @ [CHR 0xB0] @ ''C\<newline>Pressure: '' @ toFixed2 P (pressure tel)
       @ '' kPa\<newline>Timestamp: '' @ toISOString P now"

text \<open>The \<^verbatim>\<open>catch\<close> block of \<^verbatim>\<open>handleAnalyze\<close>.\<close>

definition analysisFailed :: "string option \<Rightarrow> 'n App \<Rightarrow> 'n App" where
  "analysisFailed message s =
     s\<lparr>analysis :=
         \<lparr> isLoading = False, result = None,
           error = (if truthy message then message
                    else Some ''An unexpected error occurred.'') \<rparr>\<rparr>"

text \<open>
  \<^verbatim>\<open>handleAnalyze\<close> up to its first \<^verbatim>\<open>await\<close>. \<open>r\<close> is the render that created the closure.
\<close>

definition imageToAnalyze :: "'n Render \<Rightarrow> string option \<Rightarrow> 'n App \<Rightarrow> string option" where
  "imageToAnalyze r manualImage s =
     (if r_inputMode r = CAMERA then captureFrame r s
      else if r_uploadType r = Some VIDEO then captureFrame r s
      else js_or manualImage (r_imagePreview r))"

definition handleAnalyze :: "'n Render \<Rightarrow> string option \<Rightarrow> 'n App \<Rightarrow> 'n App" where
  "handleAnalyze r manualImage s =
     (case imageToAnalyze r manualImage s of
        None \<Rightarrow> s
      | Some img \<Rightarrow>
          if img = [] \<or> r_context r = [] then s
          else s\<lparr>analysis := (analysis s)\<lparr>isLoading := True, error := None\<rparr>,
                 preprocessing := preprocessing s @ [\<lparr> cy_env = r, cy_image = img \<rparr>]\<rparr>)"

text \<open>
  The continuation of cycle \<open>i\<close> once \<^verbatim>\<open>preprocessImage\<close> and \<^verbatim>\<open>ensureBase64\<close> have settled
  (\<^verbatim>\<open>enablePreprocessing\<close> is the constant \<^verbatim>\<open>true\<close>): it composes the augmented context, splits
  the data URL and calls \<^verbatim>\<open>analyzeExperiment\<close>, or ends in the \<^verbatim>\<open>catch\<close> block. Between the
  two awaits the code reads nothing, so they are one step.
\<close>

definition preprocessSettled :: "'n Platform \<Rightarrow> nat \<Rightarrow> ImageLoad \<Rightarrow> Fetch \<Rightarrow> 'n App \<Rightarrow> 'n App" where
  "preprocessSettled P i img f s =
     (let c = preprocessing s ! i;
          r = cy_env c;
          s0 = s\<lparr>preprocessing := remove_nth i (preprocessing s)\<rparr>
      in case preprocessImage (cy_image c) img of
           Pending \<Rightarrow> s
         | Rejected m \<Rightarrow> analysisFailed m s0
         | Resolved pre \<Rightarrow>
             (case ensureBase64 pre f of
                Pending \<Rightarrow> s
              | Rejected m \<Rightarrow> analysisFailed m s0
              | Resolved finalImageDataUrl \<Rightarrow>
                  (let augmented = augmentedContext P (r_context r) (r_telemetry r) (clock s);
                       parts = split (CHR '','') finalImageDataUrl
                   in if length parts \<noteq> 2
                      then analysisFailed (Some ''Invalid image data format.'') s0
                      else s0\<lparr>inflight := inflight s0 @
                                [\<lparr> fl_env = r,
                                   fl_request = \<lparr> req_context = augmented,
                                                  req_image = parts ! 1,
                                                  req_level = r_thinkingLevel r \<rparr> \<rparr>]\<rparr>)))"

text \<open>
  The continuation of flight \<open>i\<close> once \<^verbatim>\<open>analyzeExperiment\<close> has settled: \<open>Inr\<close> the result,
  \<open>Inl\<close> the \<^verbatim>\<open>message\<close> of the error thrown.
\<close>

definition analysisSettled :: "nat \<Rightarrow> string option + AnalysisResult \<Rightarrow> 'n App \<Rightarrow> 'n App" where
  "analysisSettled i outcome s =
     (let fl = inflight s ! i;
          s0 = s\<lparr>inflight := remove_nth i (inflight s)\<rparr>
      in case outcome of
           Inl message \<Rightarrow> analysisFailed message s0
         | Inr res \<Rightarrow>
             s0\<lparr>analysis := \<lparr> isLoading = False, result = Some res, error = None \<rparr>,
                history := history s0 @
                  [\<lparr> timestamp = clock s0, item_telemetry = r_telemetry (fl_env fl),
                     item_analysis = res \<rparr>]\<rparr>)"

subsection \<open>Monitoring\<close>

definition canMonitor :: "InputMode \<Rightarrow> UploadType option \<Rightarrow> bool" where
  "canMonitor m u = (m = CAMERA \<or> (m = UPLOAD \<and> u = Some VIDEO))"

definition isMonitoringCapable :: "'n App \<Rightarrow> bool" where
  "isMonitoringCapable s = canMonitor (inputMode s) (uploadType s)"

text \<open>A call \<^verbatim>\<open>handleAnalyze()\<close>, counted.\<close>

definition callHandleAnalyze :: "'n Render \<Rightarrow> 'n App \<Rightarrow> 'n App" where
  "callHandleAnalyze r s = handleAnalyze r None (s\<lparr>cycles := Suc (cycles s)\<rparr>)"

text \<open>The callback given to \<^verbatim>\<open>setInterval\<close>, created in render \<open>r\<close>.\<close>

definition tick :: "'n App \<Rightarrow> 'n App" where
  "tick s =
     (case monitor s of
        None \<Rightarrow> s
      | Some r \<Rightarrow> if r_isLoading r then s else callHandleAnalyze r s)"

text \<open>
  The two effects of \<^verbatim>\<open>App\<close>, as created in render \<open>r\<close>, and the cleanup of the monitoring
  effect. The cleanup of the camera effect is \<open>stopCamera\<close>.
\<close>

definition cameraEffect :: "'n Render \<Rightarrow> 'n App \<Rightarrow> 'n App" where
  "cameraEffect r s =
     (if r_inputMode r = CAMERA then (startCamera s)\<lparr>isAutoMonitoring := True\<rparr>
      else (let s1 = stopCamera s
            in if r_uploadType r \<noteq> Some VIDEO then s1\<lparr>isAutoMonitoring := False\<rparr> else s1))"

definition clearMonitor :: "'n App \<Rightarrow> 'n App" where
  "clearMonitor s = s\<lparr>monitor := None\<rparr>"

definition monitorEffect :: "'n Render \<Rightarrow> 'n App \<Rightarrow> 'n App" where
  "monitorEffect r s =
     (if r_isAutoMonitoring r \<and> canMonitor (r_inputMode r) (r_uploadType r)
      then (callHandleAnalyze r s)\<lparr>monitor := Some r\<rparr>
      else clearMonitor s)"

section \<open>The earlier App\<close>

text \<open>
  The repository holds a second, earlier \<^verbatim>\<open>App\<close> component (\<^verbatim>\<open>src/unnamed/part_000\<close>), without
  upload types, camera controls and history. Where it differs from the component above in
  what it does on a failed analysis, in preprocessing and in the augmented context, it is
  modelled here, with the suffix \<open>_legacy\<close>. Its state holds the \<^verbatim>\<open>useState\<close> values the
  monitoring effect and the \<^verbatim>\<open>catch\<close> block use; \<open>l_timer\<close> is the running interval, as the
  \<^verbatim>\<open>analysis.isLoading\<close> that its callback reads.
\<close>

record 'n LegacyApp =
  l_thinkingLevel :: ThinkingLevel
  l_context :: string
  l_imagePreview :: "string option"
  l_inputMode :: InputMode
  l_isCameraActive :: bool
  l_isAutoMonitoring :: bool
  l_isGalleryOpen :: bool
  l_telemetry :: "'n TelemetryData"
  l_analysis :: AnalysisState
  l_timer :: "bool option"

text \<open>
  \<^verbatim>\<open>preprocessImage\<close> of the earlier App: the body of \<^verbatim>\<open>onload\<close> is not wrapped in
  \<^verbatim>\<open>try\<close>/\<^verbatim>\<open>catch\<close>, so an exception while drawing or encoding leaves the handler without
  \<^verbatim>\<open>resolve\<close> being called.
\<close>

definition preprocessImage_legacy :: "string \<Rightarrow> ImageLoad \<Rightarrow> string Promise" where
  "preprocessImage_legacy source img =
     (case img of
        LoadError \<Rightarrow> Resolved source
      | Loaded NoContext \<Rightarrow> Resolved source
      | Loaded DrawThrows \<Rightarrow> Pending
      | Loaded (Encoded d) \<Rightarrow> Resolved d)"

text \<open>
  The augmented context of the earlier App: its source line writes the two characters
  U+00C2 U+00B0 between the temperature and \<^verbatim>\<open>C\<close>.
\<close>

definition augmentedContext_legacy :: "'n Platform \<Rightarrow> string \<Rightarrow> 'n TelemetryData \<Rightarrow> nat \<Rightarrow> string" where
  "augmentedContext_legacy P c tel now =
     c @ ''\<newline>\<newline>[REAL-TIME TELEMETRY]\<newline>Temperature: '' @ toFixed2 P (temperature tel)
       @ '' '' @ [CHR 0xC2, CHR 0xB0] @ ''C\<newline>Pressure: '' @ toFixed2 P (pressure tel)
       @ '' kPa\<newline>Timestamp: '' @ toISOString P now"

text \<open>
  The \<^verbatim>\<open>catch\<close> block of the earlier \<^verbatim>\<open>handleAnalyze\<close> (it ends with
  \<^verbatim>\<open>setIsAutoMonitoring(false)\<close>, under the comment "Stop monitoring on error"), the
  dependency list and the body of its monitoring effect (\<^verbatim>\<open>enablePreprocessing\<close> never
  changes), and the rejection of the analysis call followed by the commit of the new state.
\<close>

definition analysisFailed_legacy :: "string option \<Rightarrow> 'n LegacyApp \<Rightarrow> 'n LegacyApp" where
  "analysisFailed_legacy message s =
     s\<lparr>l_analysis :=
         \<lparr> isLoading = False, result = None,
           error = (if truthy message then message
                    else Some ''An unexpected error occurred.'') \<rparr>,
       l_isAutoMonitoring := False\<rparr>"

definition monDeps_legacy ::
  "'n LegacyApp \<Rightarrow> bool \<times> InputMode \<times> bool \<times> string \<times> ThinkingLevel \<times> 'n TelemetryData" where
  "monDeps_legacy s =
     (l_isAutoMonitoring s, l_inputMode s, isLoading (l_analysis s), l_context s,
      l_thinkingLevel s, l_telemetry s)"

definition monitorEffect_legacy :: "'n LegacyApp \<Rightarrow> 'n LegacyApp" where
  "monitorEffect_legacy s =
     (if l_isAutoMonitoring s \<and> l_inputMode s = CAMERA
      then s\<lparr>l_timer := Some (isLoading (l_analysis s))\<rparr>
      else s\<lparr>l_timer := None\<rparr>)"

definition analysisRejected_legacy :: "string option \<Rightarrow> 'n LegacyApp \<Rightarrow> 'n LegacyApp" where
  "analysisRejected_legacy message s =
     (let s1 = analysisFailed_legacy message s
      in if monDeps_legacy s \<noteq> monDeps_legacy s1 then monitorEffect_legacy s1 else s1)"

section \<open>Rendering, commits and events\<close>

text \<open>
  What React does with the component, as far as the code depends on it.
  \<^item> A ref follows the element that carries it: \<^verbatim>\<open>webcamRef\<close> is attached while the JSX
    renders the camera \<^verbatim>\<open><video>\<close> (under \<^verbatim>\<open>inputMode === 'CAMERA'\<close>), \<^verbatim>\<open>fileVideoRef\<close> while it
    renders the file \<^verbatim>\<open><video>\<close>; a ref is \<^verbatim>\<open>null\<close> once its element has left the tree. Refs
    are updated when a render is committed, before the effects of that render and the
    cleanups of the previous one run. A newly mounted video element has no \<^verbatim>\<open>srcObject\<close>
    and \<^verbatim>\<open>readyState\<close> 0.
  \<^item> An effect runs after a commit when one of its dependencies differs from the
    previous render's: first the cleanups of the effects that re-run, then their bodies,
    in the order of the source. The bodies read the constants of the render that
    created them.
  \<^item> State set by the effects is rendered and committed in turn (\<open>commit\<close> does two
    rounds; the effects change no dependency of the camera effect, and the second round
    can only re-run the monitoring effect, which changes no dependency at all).
\<close>

definition freshVideo :: VideoEl where
  "freshVideo = \<lparr> srcObject = None, readyState = 0 \<rparr>"

definition attachRefs :: "'n App \<Rightarrow> 'n App" where
  "attachRefs s =
     s\<lparr>webcamRef :=
         (if inputMode s = CAMERA
          then Some (case webcamRef s of None \<Rightarrow> freshVideo | Some v \<Rightarrow> v)
          else None),
       fileVideoRef :=
         (if inputMode s = UPLOAD \<and> (truthy (imagePreview s) \<or> truthy (videoFileSrc s))
               \<and> uploadType s = Some VIDEO \<and> truthy (videoFileSrc s)
          then Some (case fileVideoRef s of None \<Rightarrow> freshVideo | Some v \<Rightarrow> v)
          else None)\<rparr>"

text \<open>
  The dependency list of the monitoring effect (\<^verbatim>\<open>enablePreprocessing\<close> never changes); the
  camera effect depends on \<^verbatim>\<open>inputMode\<close> alone.
\<close>

definition monDeps :: "'n App \<Rightarrow> bool \<times> InputMode \<times> UploadType option \<times> string \<times> ThinkingLevel" where
  "monDeps s = (isAutoMonitoring s, inputMode s, uploadType s, contextText s, thinkingLevel s)"

definition flushEffects :: "'n App \<Rightarrow> 'n App \<Rightarrow> 'n App" where
  "flushEffects prev s =
     (let r = render s;
          cam = (inputMode prev \<noteq> inputMode s);
          mon = (monDeps prev \<noteq> monDeps s);
          s1 = attachRefs s;
          s2 = (if cam then stopCamera s1 else s1);
          s3 = (if mon then clearMonitor s2 else s2);
          s4 = (if cam then cameraEffect r s3 else s3)
      in if mon then monitorEffect r s4 else s4)"

definition commit :: "'n App \<Rightarrow> 'n App \<Rightarrow> 'n App" where
  "commit prev s = (let s1 = flushEffects prev s in flushEffects s s1)"

text \<open>
  The events: what the user does, what the browser reports, and the settling of
  suspended work. \<open>TelemetryChanged\<close> is any new telemetry value (a simulation tick or a
  manual entry); \<open>VideoReadyState\<close> and \<open>CanvasBehaviour\<close> are changes of the browser;
  \<open>ClockAdvance\<close> lets time pass (the clock never runs backwards).
\<close>

datatype 'n Event =
    SetContext string
  | SetThinkingLevel ThinkingLevel
  | OpenGallery
  | CloseGallery
  | GallerySelect string string
  | FileChange "File option"
  | FileLoaded "string option"
  | LiveCameraClick
  | FileUploadClick
  | ToggleMonitoring
  | AnalyzeClick
  | TelemetryChanged "'n TelemetryData"
  | CameraGranted "nat list" Capabilities
  | CameraDenied
  | PreprocessSettled nat ImageLoad Fetch
  | AnalysisSettled nat "string option + AnalysisResult"
  | Tick
  | ClockAdvance nat
  | VideoReadyState bool nat
  | CanvasBehaviour Canvas2D

definition handleLiveCameraClick :: "'n App \<Rightarrow> 'n App" where
  "handleLiveCameraClick s = s\<lparr>inputMode := CAMERA, isAutoMonitoring := True\<rparr>"

definition handleFileUploadClick :: "'n App \<Rightarrow> 'n App" where
  "handleFileUploadClick s = s\<lparr>inputMode := UPLOAD, isAutoMonitoring := False\<rparr>"

definition videoReadyState :: "bool \<Rightarrow> nat \<Rightarrow> 'n App \<Rightarrow> 'n App" where
  "videoReadyState cam n s =
     (if cam then s\<lparr>webcamRef := map_option (\<lambda>v. v\<lparr>readyState := n\<rparr>) (webcamRef s)\<rparr>
      else s\<lparr>fileVideoRef := map_option (\<lambda>v. v\<lparr>readyState := n\<rparr>) (fileVideoRef s)\<rparr>)"

text \<open>
  When an event can happen: the gallery lists its experiments while it is open, the file
  input is rendered in upload mode, the monitoring button is rendered while
  \<^verbatim>\<open>isMonitoringCapable\<close>, the analyze button is disabled as the JSX says, and suspended work
  settles only if it exists.
\<close>

fun enabled :: "'n Event \<Rightarrow> 'n App \<Rightarrow> bool" where
  "enabled (GallerySelect c u) s = isGalleryOpen s"
| "enabled (FileChange f) s = (inputMode s = UPLOAD)"
| "enabled (FileLoaded res) s = (0 < fileReaders s)"
| "enabled ToggleMonitoring s = isMonitoringCapable s"
| "enabled AnalyzeClick s =
     (\<not> (isLoading (analysis s) \<or>
          (inputMode s = UPLOAD \<and> \<not> truthy (imagePreview s) \<and> \<not> truthy (videoFileSrc s))))"
| "enabled (CameraGranted stream caps) s = (0 < cameraRequests s)"
| "enabled CameraDenied s = (0 < cameraRequests s)"
| "enabled (PreprocessSettled i img f) s = (i < length (preprocessing s))"
| "enabled (AnalysisSettled i outcome) s = (i < length (inflight s))"
| "enabled Tick s = (monitor s \<noteq> None)"
| "enabled (SetContext c) s = True"
| "enabled (SetThinkingLevel l) s = True"
| "enabled OpenGallery s = True"
| "enabled CloseGallery s = True"
| "enabled LiveCameraClick s = True"
| "enabled FileUploadClick s = True"
| "enabled (TelemetryChanged t) s = True"
| "enabled (ClockAdvance d) s = True"
| "enabled (VideoReadyState cam n) s = True"
| "enabled (CanvasBehaviour c) s = True"

fun handler :: "'n Platform \<Rightarrow> 'n Event \<Rightarrow> 'n App \<Rightarrow> 'n App" where
  "handler P (SetContext c) s = s\<lparr>contextText := c\<rparr>"
| "handler P (SetThinkingLevel l) s = s\<lparr>thinkingLevel := l\<rparr>"
| "handler P OpenGallery s = s\<lparr>isGalleryOpen := True\<rparr>"
| "handler P CloseGallery s = s\<lparr>isGalleryOpen := False\<rparr>"
| "handler P (GallerySelect c u) s = handleGallerySelect c u s"
| "handler P (FileChange f) s = handleFileChange f s"
| "handler P (FileLoaded res) s = fileLoaded res s"
| "handler P LiveCameraClick s = handleLiveCameraClick s"
| "handler P FileUploadClick s = handleFileUploadClick s"
| "handler P ToggleMonitoring s = s\<lparr>isAutoMonitoring := \<not> isAutoMonitoring s\<rparr>"
| "handler P AnalyzeClick s = callHandleAnalyze (render s) s"
| "handler P (TelemetryChanged t) s = s\<lparr>telemetry := t\<rparr>"
| "handler P (CameraGranted stream caps) s = cameraGranted stream caps s"
| "handler P CameraDenied s = cameraDenied s"
| "handler P (PreprocessSettled i img f) s = preprocessSettled P i img f s"
| "handler P (AnalysisSettled i outcome) s = analysisSettled i outcome s"
| "handler P Tick s = tick s"
| "handler P (ClockAdvance d) s = s\<lparr>clock := clock s + d\<rparr>"
| "handler P (VideoReadyState cam n) s = videoReadyState cam n s"
| "handler P (CanvasBehaviour c) s = s\<lparr>canvas := c\<rparr>"

definition step :: "'n Platform \<Rightarrow> 'n Event \<Rightarrow> 'n App \<Rightarrow> 'n App" where
  "step P e s = (if enabled e s then commit s (handler P e s) else s)"

fun run :: "'n Platform \<Rightarrow> 'n Event list \<Rightarrow> 'n App \<Rightarrow> 'n App" where
  "run P [] s = s"
| "run P (e # es) s = run P es (step P e s)"

section \<open>Examples and reference statements\<close>

text \<open>
  A platform whose renderings are fixed strings, and a telemetry reading, for evaluating
  the model on examples.
\<close>

definition fixedPlatform :: "nat Platform" where
  "fixedPlatform = \<lparr> toFixed2 = (\<lambda>n. ''24.50''), toISOString = (\<lambda>t. ''2026-01-01T00:00:00.000Z'') \<rparr>"

definition exampleTelemetry :: "nat TelemetryData" where
  "exampleTelemetry = \<lparr> temperature = 2450, pressure = 10130 \<rparr>"







text \<open>A state of the earlier App that is monitoring the camera with a call outstanding.\<close>

definition legacyMonitoring :: "nat LegacyApp" where
  "legacyMonitoring =
     \<lparr> l_thinkingLevel = HIGH, l_context = ''test'', l_imagePreview = None,
       l_inputMode = CAMERA, l_isCameraActive = True, l_isAutoMonitoring = True,
       l_isGalleryOpen = False, l_telemetry = exampleTelemetry,
       l_analysis = \<lparr> isLoading = True, result = None, error = None \<rparr>,
       l_timer = Some True \<rparr>"

text \<open>Three states in which a cycle finds no frame, with a context text present.\<close>

definition cameraNotReady :: "nat App" where
  "cameraNotReady =
     (initialApp exampleTelemetry)\<lparr>contextText := ''test'', inputMode := CAMERA,
        webcamRef := Some freshVideo, canvas := Encoded ''data:image/jpeg;base64,AAAA''\<rparr>"

definition videoNotReady :: "nat App" where
  "videoNotReady =
     (initialApp exampleTelemetry)\<lparr>contextText := ''test'', uploadType := Some VIDEO,
        videoFileSrc := Some ''blob:1'', fileVideoRef := Some \<lparr> srcObject = None, readyState = 1 \<rparr>,
        canvas := Encoded ''data:image/jpeg;base64,AAAA''\<rparr>"

definition cameraUnmounted :: "nat App" where
  "cameraUnmounted = (initialApp exampleTelemetry)\<lparr>contextText := ''test''\<rparr>"

text \<open>
  A monitoring session on the camera: the context is entered, the camera is chosen and
  granted, the video becomes ready, the first timer tick starts a cycle and its
  preprocessing settles, so that one call of the Analysis Client is outstanding.
  (The captured frame is a data URL, so \<^verbatim>\<open>ensureBase64\<close> fetches nothing and the fetch
  outcome given with the event is not consulted.)
  \<open>switchTrace\<close> enters camera mode and leaves it again once the camera runs.
\<close>

definition overlapTrace :: "nat Event list" where
  "overlapTrace =
     [SetContext ''test'', LiveCameraClick, CameraGranted [7] (Capabilities True False False),
      VideoReadyState True 4, CanvasBehaviour (Encoded ''data:image/jpeg;base64,AAAA''),
      Tick, PreprocessSettled 0 (Loaded (Encoded ''data:image/jpeg;base64,BBBB'')) FetchFails]"

definition switchTrace :: "nat Event list" where
  "switchTrace =
     [LiveCameraClick, CameraGranted [7] (Capabilities True False False), FileUploadClick]"

text \<open>
  The states these sessions reach (shown below to be the states the model computes):
  \<open>armedRender\<close> is the render whose constants the running timer callback reads.
\<close>

definition armedRender :: "nat Render" where
  "armedRender =
     \<lparr> r_inputMode = CAMERA, r_uploadType = None, r_imagePreview = None,
       r_context = ''test'', r_thinkingLevel = HIGH, r_telemetry = exampleTelemetry,
       r_isLoading = False, r_isAutoMonitoring = True \<rparr>"

definition cameraPreprocessing :: "nat App" where
  "cameraPreprocessing =
     (initialApp exampleTelemetry)\<lparr>contextText := ''test'', inputMode := CAMERA,
        isCameraActive := True, isAutoMonitoring := True, videoTrack := Some 7,
        capabilities := Some (Capabilities True False False),
        analysis := \<lparr> isLoading = True, result = None, error = None \<rparr>,
        webcamRef := Some \<lparr> srcObject = Some [7], readyState = 4 \<rparr>,
        monitor := Some armedRender, liveTracks := {7},
        canvas := Encoded ''data:image/jpeg;base64,AAAA'',
        preprocessing := [\<lparr> cy_env = armedRender, cy_image = ''data:image/jpeg;base64,AAAA'' \<rparr>],
        cycles := 2\<rparr>"

definition cameraLoading :: "nat App" where
  "cameraLoading =
     cameraPreprocessing\<lparr>preprocessing := [],
        inflight := [\<lparr> fl_env = armedRender,
                       fl_request = \<lparr> req_context = augmentedContext fixedPlatform ''test'' exampleTelemetry 0,
                                      req_image = ''BBBB'', req_level = HIGH \<rparr> \<rparr>]\<rparr>"

definition cameraLeftOn :: "nat App" where
  "cameraLeftOn =
     (initialApp exampleTelemetry)\<lparr>isCameraActive := True, videoTrack := Some 7,
        capabilities := Some (Capabilities True False False), liveTracks := {7},
        cycles := 1\<rparr>"

section \<open>The history ledger and the monitoring gate\<close>

text \<open>
  What an event that happens does to the ledger: a gallery selection empties it, an
  analysis call that resolves appends one entry stamped with the clock, and every other
  event leaves it alone. \<open>successes\<close> counts, along a session, the analysis calls that
  resolved since the last gallery selection (starting from \<open>n\<close>). \<open>ledgerOrdered\<close>: the
  entries are in non-decreasing timestamp order and none is later than the clock.
\<close>

fun ledgerAfter :: "'n Event \<Rightarrow> 'n App \<Rightarrow> 'n HistoryItem list" where
  "ledgerAfter (GallerySelect c u) s = []"
| "ledgerAfter (AnalysisSettled i (Inr res)) s =
     history s @ [\<lparr> timestamp = clock s, item_telemetry = r_telemetry (fl_env (inflight s ! i)),
                    item_analysis = res \<rparr>]"
| "ledgerAfter e s = history s"

fun countAfter :: "'n Event \<Rightarrow> nat \<Rightarrow> nat" where
  "countAfter (GallerySelect c u) n = 0"
| "countAfter (AnalysisSettled i (Inr res)) n = Suc n"
| "countAfter e n = n"

fun successes :: "'n Platform \<Rightarrow> 'n Event list \<Rightarrow> 'n App \<Rightarrow> nat \<Rightarrow> nat" where
  "successes P [] s n = n"
| "successes P (e # es) s n =
     successes P es (step P e s) (if enabled e s then countAfter e n else n)"

definition ledgerOrdered :: "'n App \<Rightarrow> bool" where
  "ledgerOrdered s =
     (sorted (map timestamp (history s)) \<and> list_all (\<lambda>h. timestamp h \<le> clock s) (history s))"

text \<open>A result of the Analysis Client, for the examples.\<close>

definition exampleResult :: AnalysisResult where
  "exampleResult = \<lparr> status = NORMAL, observation = ''clear'', deduction = ''none'',
                      recommendation = ''continue'' \<rparr>"

text \<open>
  \<open>gated\<close>: auto-monitoring is on only for a source that can be captured repeatedly, and a
  timer runs only while auto-monitoring is on for such a source.
\<close>

definition gated :: "'n App \<Rightarrow> bool" where
  "gated s =
     ((if isAutoMonitoring s then isMonitoringCapable s else True) \<and>
      (case monitor s of None \<Rightarrow> True | Some r \<Rightarrow> isAutoMonitoring s \<and> isMonitoringCapable s))"

text \<open>A state with the gallery open and an image file being read.\<close>

definition pendingUpload :: "nat App" where
  "pendingUpload = (initialApp exampleTelemetry)\<lparr>isGalleryOpen := True, fileReaders := 1\<rparr>"

text \<open>\<open>refsFollowTree\<close>: each ref is attached exactly when the JSX renders its element.\<close>

definition refsFollowTree :: "'n App \<Rightarrow> bool" where
  "refsFollowTree s =
     ((webcamRef s \<noteq> None) = (inputMode s = CAMERA) \<and>
      (fileVideoRef s \<noteq> None) =
        (inputMode s = UPLOAD \<and> uploadType s = Some VIDEO \<and> truthy (videoFileSrc s)))"

section \<open>Basic facts\<close>

subsection \<open>What each function leaves unchanged\<close>

lemma handleAnalyze_fields [simp]:
  "inputMode (handleAnalyze r m s) = inputMode s"
  "uploadType (handleAnalyze r m s) = uploadType s"
  "isAutoMonitoring (handleAnalyze r m s) = isAutoMonitoring s"
  "contextText (handleAnalyze r m s) = contextText s"
  "thinkingLevel (handleAnalyze r m s) = thinkingLevel s"
  "monitor (handleAnalyze r m s) = monitor s"
  "history (handleAnalyze r m s) = history s"
  "clock (handleAnalyze r m s) = clock s"
  "cycles (handleAnalyze r m s) = cycles s"
  "inflight (handleAnalyze r m s) = inflight s"
  "liveTracks (handleAnalyze r m s) = liveTracks s"
  "webcamRef (handleAnalyze r m s) = webcamRef s"
  "fileVideoRef (handleAnalyze r m s) = fileVideoRef s"
  "imagePreview (handleAnalyze r m s) = imagePreview s"
  "videoFileSrc (handleAnalyze r m s) = videoFileSrc s"
  "videoTrack (handleAnalyze r m s) = videoTrack s"
  "capabilities (handleAnalyze r m s) = capabilities s"
  "isCameraActive (handleAnalyze r m s) = isCameraActive s"
  "cameraRequests (handleAnalyze r m s) = cameraRequests s"
  by (simp_all add: handleAnalyze_def split: option.splits)

lemma callHandleAnalyze_fields [simp]:
  "inputMode (callHandleAnalyze r s) = inputMode s"
  "uploadType (callHandleAnalyze r s) = uploadType s"
  "isAutoMonitoring (callHandleAnalyze r s) = isAutoMonitoring s"
  "contextText (callHandleAnalyze r s) = contextText s"
  "thinkingLevel (callHandleAnalyze r s) = thinkingLevel s"
  "monitor (callHandleAnalyze r s) = monitor s"
  "history (callHandleAnalyze r s) = history s"
  "clock (callHandleAnalyze r s) = clock s"
  "cycles (callHandleAnalyze r s) = Suc (cycles s)"
  "inflight (callHandleAnalyze r s) = inflight s"
  "liveTracks (callHandleAnalyze r s) = liveTracks s"
  "webcamRef (callHandleAnalyze r s) = webcamRef s"
  "fileVideoRef (callHandleAnalyze r s) = fileVideoRef s"
  "imagePreview (callHandleAnalyze r s) = imagePreview s"
  "videoFileSrc (callHandleAnalyze r s) = videoFileSrc s"
  "videoTrack (callHandleAnalyze r s) = videoTrack s"
  "capabilities (callHandleAnalyze r s) = capabilities s"
  "isCameraActive (callHandleAnalyze r s) = isCameraActive s"
  "cameraRequests (callHandleAnalyze r s) = cameraRequests s"
  by (simp_all add: callHandleAnalyze_def)

lemma stopCamera_fields [simp]:
  "inputMode (stopCamera s) = inputMode s"
  "uploadType (stopCamera s) = uploadType s"
  "isAutoMonitoring (stopCamera s) = isAutoMonitoring s"
  "contextText (stopCamera s) = contextText s"
  "thinkingLevel (stopCamera s) = thinkingLevel s"
  "monitor (stopCamera s) = monitor s"
  "history (stopCamera s) = history s"
  "clock (stopCamera s) = clock s"
  "cycles (stopCamera s) = cycles s"
  "inflight (stopCamera s) = inflight s"
  "preprocessing (stopCamera s) = preprocessing s"
  "analysis (stopCamera s) = analysis s"
  "fileVideoRef (stopCamera s) = fileVideoRef s"
  "imagePreview (stopCamera s) = imagePreview s"
  "videoFileSrc (stopCamera s) = videoFileSrc s"
  "cameraRequests (stopCamera s) = cameraRequests s"
  "telemetry (stopCamera s) = telemetry s"
  by (simp_all add: stopCamera_def Let_def split: option.splits)

lemma stopCamera_detached: "webcamRef s = None \<Longrightarrow> stopCamera s = s"
  by (simp add: stopCamera_def)

lemma attachRefs_fields [simp]:
  "inputMode (attachRefs s) = inputMode s"
  "uploadType (attachRefs s) = uploadType s"
  "isAutoMonitoring (attachRefs s) = isAutoMonitoring s"
  "contextText (attachRefs s) = contextText s"
  "thinkingLevel (attachRefs s) = thinkingLevel s"
  "monitor (attachRefs s) = monitor s"
  "history (attachRefs s) = history s"
  "clock (attachRefs s) = clock s"
  "cycles (attachRefs s) = cycles s"
  "inflight (attachRefs s) = inflight s"
  "preprocessing (attachRefs s) = preprocessing s"
  "analysis (attachRefs s) = analysis s"
  "liveTracks (attachRefs s) = liveTracks s"
  "imagePreview (attachRefs s) = imagePreview s"
  "videoFileSrc (attachRefs s) = videoFileSrc s"
  "videoTrack (attachRefs s) = videoTrack s"
  "capabilities (attachRefs s) = capabilities s"
  "isCameraActive (attachRefs s) = isCameraActive s"
  "cameraRequests (attachRefs s) = cameraRequests s"
  "telemetry (attachRefs s) = telemetry s"
  by (simp_all add: attachRefs_def)

lemma cameraEffect_fields [simp]:
  "inputMode (cameraEffect r s) = inputMode s"
  "uploadType (cameraEffect r s) = uploadType s"
  "contextText (cameraEffect r s) = contextText s"
  "thinkingLevel (cameraEffect r s) = thinkingLevel s"
  "monitor (cameraEffect r s) = monitor s"
  "history (cameraEffect r s) = history s"
  "clock (cameraEffect r s) = clock s"
  "cycles (cameraEffect r s) = cycles s"
  "inflight (cameraEffect r s) = inflight s"
  "preprocessing (cameraEffect r s) = preprocessing s"
  "analysis (cameraEffect r s) = analysis s"
  "fileVideoRef (cameraEffect r s) = fileVideoRef s"
  "imagePreview (cameraEffect r s) = imagePreview s"
  "videoFileSrc (cameraEffect r s) = videoFileSrc s"
  "telemetry (cameraEffect r s) = telemetry s"
  by (simp_all add: cameraEffect_def startCamera_def Let_def)

lemma cameraEffect_auto:
  "isAutoMonitoring (cameraEffect r s) =
     (if r_inputMode r = CAMERA then True
      else if r_uploadType r \<noteq> Some VIDEO then False else isAutoMonitoring s)"
  by (simp add: cameraEffect_def startCamera_def Let_def)

lemma monitorEffect_fields [simp]:
  "inputMode (monitorEffect r s) = inputMode s"
  "uploadType (monitorEffect r s) = uploadType s"
  "isAutoMonitoring (monitorEffect r s) = isAutoMonitoring s"
  "contextText (monitorEffect r s) = contextText s"
  "thinkingLevel (monitorEffect r s) = thinkingLevel s"
  "history (monitorEffect r s) = history s"
  "clock (monitorEffect r s) = clock s"
  "inflight (monitorEffect r s) = inflight s"
  "liveTracks (monitorEffect r s) = liveTracks s"
  "webcamRef (monitorEffect r s) = webcamRef s"
  "fileVideoRef (monitorEffect r s) = fileVideoRef s"
  "imagePreview (monitorEffect r s) = imagePreview s"
  "videoFileSrc (monitorEffect r s) = videoFileSrc s"
  "videoTrack (monitorEffect r s) = videoTrack s"
  "capabilities (monitorEffect r s) = capabilities s"
  "isCameraActive (monitorEffect r s) = isCameraActive s"
  "cameraRequests (monitorEffect r s) = cameraRequests s"
  by (simp_all add: monitorEffect_def clearMonitor_def)

lemma monitorEffect_monitor:
  "monitor (monitorEffect r s) =
     (if r_isAutoMonitoring r \<and> canMonitor (r_inputMode r) (r_uploadType r) then Some r else None)"
  by (simp add: monitorEffect_def clearMonitor_def)

lemma clearMonitor_fields [simp]:
  "inputMode (clearMonitor s) = inputMode s"
  "uploadType (clearMonitor s) = uploadType s"
  "isAutoMonitoring (clearMonitor s) = isAutoMonitoring s"
  "contextText (clearMonitor s) = contextText s"
  "thinkingLevel (clearMonitor s) = thinkingLevel s"
  "history (clearMonitor s) = history s"
  "clock (clearMonitor s) = clock s"
  "cycles (clearMonitor s) = cycles s"
  "inflight (clearMonitor s) = inflight s"
  "preprocessing (clearMonitor s) = preprocessing s"
  "analysis (clearMonitor s) = analysis s"
  "liveTracks (clearMonitor s) = liveTracks s"
  "webcamRef (clearMonitor s) = webcamRef s"
  "fileVideoRef (clearMonitor s) = fileVideoRef s"
  "videoTrack (clearMonitor s) = videoTrack s"
  "capabilities (clearMonitor s) = capabilities s"
  "isCameraActive (clearMonitor s) = isCameraActive s"
  "cameraRequests (clearMonitor s) = cameraRequests s"
  "monitor (clearMonitor s) = None"
  by (simp_all add: clearMonitor_def)

lemma render_fields [simp]:
  "r_inputMode (render s) = inputMode s"
  "r_uploadType (render s) = uploadType s"
  "r_isAutoMonitoring (render s) = isAutoMonitoring s"
  "r_context (render s) = contextText s"
  "r_isLoading (render s) = isLoading (analysis s)"
  "r_telemetry (render s) = telemetry s"
  "r_thinkingLevel (render s) = thinkingLevel s"
  "r_imagePreview (render s) = imagePreview s"
  by (simp_all add: render_def)

lemma flushEffects_fields [simp]:
  "inputMode (flushEffects prev s) = inputMode s"
  "uploadType (flushEffects prev s) = uploadType s"
  "contextText (flushEffects prev s) = contextText s"
  "thinkingLevel (flushEffects prev s) = thinkingLevel s"
  "history (flushEffects prev s) = history s"
  "clock (flushEffects prev s) = clock s"
  "inflight (flushEffects prev s) = inflight s"
  by (simp_all add: flushEffects_def Let_def)

lemma flushEffects_auto:
  "isAutoMonitoring (flushEffects prev s) =
     (if inputMode prev \<noteq> inputMode s
      then (if inputMode s = CAMERA then True
            else if uploadType s \<noteq> Some VIDEO then False else isAutoMonitoring s)
      else isAutoMonitoring s)"
  by (simp add: flushEffects_def Let_def cameraEffect_auto)

lemma flushEffects_monitor:
  "monitor (flushEffects prev s) =
     (if monDeps prev \<noteq> monDeps s
      then (if isAutoMonitoring s \<and> canMonitor (inputMode s) (uploadType s)
            then Some (render s) else None)
      else monitor s)"
  by (simp add: flushEffects_def Let_def monitorEffect_monitor)

lemma commit_fields [simp]:
  "inputMode (commit prev s) = inputMode s"
  "uploadType (commit prev s) = uploadType s"
  "contextText (commit prev s) = contextText s"
  "thinkingLevel (commit prev s) = thinkingLevel s"
  "history (commit prev s) = history s"
  "clock (commit prev s) = clock s"
  "inflight (commit prev s) = inflight s"
  by (simp_all add: commit_def Let_def)

lemma commit_auto:
  "isAutoMonitoring (commit prev s) = isAutoMonitoring (flushEffects prev s)"
  by (simp add: commit_def Let_def flushEffects_auto)

subsection \<open>Splitting strings\<close>

lemma split_nonempty [simp]: "split c xs \<noteq> []"
  by (induction xs) (auto split: list.splits)



section \<open>The augmented context\<close>












text \<open>What the earlier App writes, unit included.\<close>

lemma augmentedContext_legacy_unit:
  "augmentedContext_legacy P c tel now =
     c @ ''\<newline>\<newline>[REAL-TIME TELEMETRY]\<newline>Temperature: '' @ toFixed2 P (temperature tel)
       @ '' '' @ [CHR 0xC2, CHR 0xB0] @ ''C\<newline>Pressure: '' @ toFixed2 P (pressure tel)
       @ '' kPa\<newline>Timestamp: '' @ toISOString P now"
  by (simp add: augmentedContext_legacy_def)


section \<open>Image preprocessing\<close>

lemma preprocessImage_resolves: "\<exists>out. preprocessImage source img = Resolved out"
  by (simp add: preprocessImage_def split: ImageLoad.splits Canvas2D.splits)

lemma ensureBase64_settles: "ensureBase64 u f \<noteq> Pending"
  by (simp add: ensureBase64_def split: Fetch.splits)

lemma preprocessSettled_moves_on:
  "preprocessing (preprocessSettled P i img f s) = remove_nth i (preprocessing s)"
proof -
  obtain out where out: "preprocessImage (cy_image (preprocessing s ! i)) img = Resolved out"
    using preprocessImage_resolves by blast
  show ?thesis
  proof (cases "ensureBase64 out f")
    case (Resolved final)
    then show ?thesis using out by (simp add: preprocessSettled_def analysisFailed_def Let_def)
  next
    case (Rejected m)
    then show ?thesis using out by (simp add: preprocessSettled_def analysisFailed_def Let_def)
  next
    case Pending
    then show ?thesis using ensureBase64_settles by blast
  qed
qed

text \<open>
  In the App with the history ledger \<^verbatim>\<open>preprocessImage\<close> resolves for every input image
  string, whatever the browser does with it: when the image fails to load, when the canvas
  has no 2d context and when drawing or encoding throws, it resolves with the unmodified
  input string. A cycle whose preprocessing failed goes on exactly as if preprocessing had
  returned the captured image, and reaches the Analysis Client when that image is a data
  URL.
\<close>

lemma preprocessImage_total:
  "(\<exists>out. preprocessImage source img = Resolved out) \<and>
   preprocessImage source LoadError = Resolved source \<and>
   preprocessImage source (Loaded NoContext) = Resolved source \<and>
   preprocessImage source (Loaded DrawThrows) = Resolved source \<and>
   preprocessing (preprocessSettled P i img f s) = remove_nth i (preprocessing s)"
  using preprocessImage_resolves [of source img] preprocessSettled_moves_on [of P i img f s]
  by (simp add: preprocessImage_def)

lemma preprocess_failure_continues:
  assumes "img = LoadError \<or> img = Loaded NoContext \<or> img = Loaded DrawThrows"
  shows "preprocessSettled P i img f s =
         preprocessSettled P i (Loaded (Encoded (cy_image (preprocessing s ! i)))) f s"
  using assms by (auto simp: preprocessSettled_def preprocessImage_def Let_def)

lemma preprocess_failure_reaches_client:
  assumes "img = LoadError \<or> img = Loaded NoContext \<or> img = Loaded DrawThrows"
    and "startsWith ''data:'' (cy_image (preprocessing s ! i))"
    and "split (CHR '','') (cy_image (preprocessing s ! i)) = [mime, b64]"
  shows "\<exists>fl. inflight (preprocessSettled P i img f s) = inflight s @ [fl] \<and>
              req_image (fl_request fl) = b64"
  using assms by (auto simp: preprocessSettled_def preprocessImage_def ensureBase64_def Let_def)

text \<open>
  The earlier App's \<^verbatim>\<open>preprocessImage\<close> resolves in the same way when the image fails to
  load, when there is no 2d context and when the image is encoded; when drawing or
  encoding throws it never settles.
\<close>

lemma preprocessImage_legacy_cases:
  "preprocessImage_legacy source LoadError = Resolved source"
  "preprocessImage_legacy source (Loaded NoContext) = Resolved source"
  "preprocessImage_legacy source (Loaded (Encoded d)) = Resolved d"
  "preprocessImage_legacy source (Loaded DrawThrows) = Pending"
  by (simp_all add: preprocessImage_legacy_def)

text \<open>
  Claim C7 on the code. For an image that loads and whose drawing or encoding throws,
  \<^verbatim>\<open>preprocessImage\<close> of the earlier App never settles: the promise stays pending instead of
  resolving with the input string, as \<^verbatim>\<open>preprocessImage\<close> of the App with the history ledger
  does for the same image.
\<close>

theorem legacy_preprocess_never_settles:
  "preprocessImage_legacy ''data:image/jpeg;base64,AAAA'' (Loaded DrawThrows) = Pending \<and>
   preprocessImage ''data:image/jpeg;base64,AAAA'' (Loaded DrawThrows) =
     Resolved ''data:image/jpeg;base64,AAAA''"
  by (simp add: preprocessImage_legacy_def preprocessImage_def)

section \<open>Cycles with missing inputs\<close>

lemma captureFrame_not_ready:
  "r_inputMode r = CAMERA \<Longrightarrow> webcamRef s = Some v \<Longrightarrow> readyState v < 2 \<Longrightarrow> captureFrame r s = None"
  "r_inputMode r = UPLOAD \<Longrightarrow> r_uploadType r = Some VIDEO \<Longrightarrow> fileVideoRef s = Some v \<Longrightarrow>
     readyState v < 2 \<Longrightarrow> captureFrame r s = None"
  "r_inputMode r = CAMERA \<Longrightarrow> webcamRef s = None \<Longrightarrow> captureFrame r s = None"
  by (simp_all add: captureFrame_def)

lemma imageToAnalyze_capture:
  "canMonitor (r_inputMode r) (r_uploadType r) \<Longrightarrow> imageToAnalyze r m s = captureFrame r s"
  by (auto simp: imageToAnalyze_def canMonitor_def)

lemma handleAnalyze_noop:
  "r_context r = [] \<or> \<not> truthy (imageToAnalyze r m s) \<Longrightarrow> handleAnalyze r m s = s"
  by (cases "imageToAnalyze r m s") (auto simp: handleAnalyze_def truthy_def)

text \<open>
  Claim C8. When the context text is empty or no image is available
  (\<^verbatim>\<open>imageToAnalyze\<close> is \<^verbatim>\<open>null\<close> or empty), \<^verbatim>\<open>handleAnalyze\<close> returns the state as it found it:
  no call of the Analysis Client is prepared, no error is set, the loading state and
  the history are unchanged. For a camera or video source the image is the captured
  frame, so no frame means no image; and \<^verbatim>\<open>captureFrame\<close> returns \<^verbatim>\<open>null\<close> when the video
  element is missing or its \<^verbatim>\<open>readyState\<close> is below 2 (\<^verbatim>\<open>HAVE_CURRENT_DATA\<close>).
\<close>

theorem handleAnalyze_missing_inputs:
  "(r_context r = [] \<or> \<not> truthy (imageToAnalyze r manualImage s) \<longrightarrow>
      handleAnalyze r manualImage s = s) \<and>
   (canMonitor (r_inputMode r) (r_uploadType r) \<and> captureFrame r s = None \<longrightarrow>
      imageToAnalyze r manualImage s = None) \<and>
   (r_inputMode r = CAMERA \<and> webcamRef s = Some v \<and> readyState v < 2 \<longrightarrow>
      captureFrame r s = None) \<and>
   (r_inputMode r = UPLOAD \<and> r_uploadType r = Some VIDEO \<and> fileVideoRef s = Some v \<and>
    readyState v < 2 \<longrightarrow> captureFrame r s = None) \<and>
   (r_inputMode r = CAMERA \<and> webcamRef s = None \<longrightarrow> captureFrame r s = None)"
  using handleAnalyze_noop [of r manualImage s] imageToAnalyze_capture [of r manualImage s]
    captureFrame_not_ready(1) [of r s v] captureFrame_not_ready(2) [of r s v]
    captureFrame_not_ready(3) [of r s]
  by simp

lemma cameraNotReady_facts:
  "r_inputMode (render cameraNotReady) = CAMERA"
  "r_uploadType (render cameraNotReady) = None"
  "webcamRef cameraNotReady = Some freshVideo"
  "readyState freshVideo = 0"
  by (simp_all add: cameraNotReady_def initialApp_def freshVideo_def)

lemma videoNotReady_facts:
  "r_inputMode (render videoNotReady) = UPLOAD"
  "r_uploadType (render videoNotReady) = Some VIDEO"
  "fileVideoRef videoNotReady = Some \<lparr> srcObject = None, readyState = 1 \<rparr>"
  by (simp_all add: videoNotReady_def initialApp_def)

lemma cameraUnmounted_facts:
  "r_inputMode (render (cameraUnmounted\<lparr>inputMode := CAMERA\<rparr>)) = CAMERA"
  "r_uploadType (render (cameraUnmounted\<lparr>inputMode := CAMERA\<rparr>)) = None"
  "webcamRef (cameraUnmounted\<lparr>inputMode := CAMERA\<rparr>) = None"
  by (simp_all add: cameraUnmounted_def initialApp_def)

theorem handleAnalyze_missing_inputs_witness:
  "handleAnalyze (render cameraNotReady) None cameraNotReady = cameraNotReady \<and>
   captureFrame (render cameraNotReady) cameraNotReady = None \<and>
   handleAnalyze (render videoNotReady) None videoNotReady = videoNotReady \<and>
   captureFrame (render videoNotReady) videoNotReady = None \<and>
   handleAnalyze (render (cameraUnmounted\<lparr>inputMode := CAMERA\<rparr>)) None
     (cameraUnmounted\<lparr>inputMode := CAMERA\<rparr>) = cameraUnmounted\<lparr>inputMode := CAMERA\<rparr>"
  using handleAnalyze_missing_inputs [of "render cameraNotReady" None cameraNotReady freshVideo]
    handleAnalyze_missing_inputs [of "render videoNotReady" None videoNotReady
      "\<lparr> srcObject = None, readyState = 1 \<rparr>"]
    handleAnalyze_missing_inputs [of "render (cameraUnmounted\<lparr>inputMode := CAMERA\<rparr>)" None
      "cameraUnmounted\<lparr>inputMode := CAMERA\<rparr>" freshVideo]
  by (simp add: cameraNotReady_facts videoNotReady_facts cameraUnmounted_facts canMonitor_def
        truthy_def del: render_fields)

section \<open>Settled analyses and unchanged dependencies\<close>

lemma analysisFailed_fields [simp]:
  "inputMode (analysisFailed m s) = inputMode s"
  "uploadType (analysisFailed m s) = uploadType s"
  "isAutoMonitoring (analysisFailed m s) = isAutoMonitoring s"
  "contextText (analysisFailed m s) = contextText s"
  "thinkingLevel (analysisFailed m s) = thinkingLevel s"
  "monitor (analysisFailed m s) = monitor s"
  "history (analysisFailed m s) = history s"
  "clock (analysisFailed m s) = clock s"
  "cycles (analysisFailed m s) = cycles s"
  "inflight (analysisFailed m s) = inflight s"
  "preprocessing (analysisFailed m s) = preprocessing s"
  by (simp_all add: analysisFailed_def)

lemma analysisFailed_analysis:
  "truthy (error (analysis (analysisFailed m s)))"
  "\<not> isLoading (analysis (analysisFailed m s))"
  "result (analysis (analysisFailed m s)) = None"
  by (simp_all add: analysisFailed_def truthy_def)

lemma analysisSettled_fields [simp]:
  "inputMode (analysisSettled i out s) = inputMode s"
  "uploadType (analysisSettled i out s) = uploadType s"
  "isAutoMonitoring (analysisSettled i out s) = isAutoMonitoring s"
  "contextText (analysisSettled i out s) = contextText s"
  "thinkingLevel (analysisSettled i out s) = thinkingLevel s"
  "monitor (analysisSettled i out s) = monitor s"
  "clock (analysisSettled i out s) = clock s"
  "cycles (analysisSettled i out s) = cycles s"
  "inflight (analysisSettled i out s) = remove_nth i (inflight s)"
  by (simp_all add: analysisSettled_def Let_def split: sum.splits)

lemma analysisSettled_history:
  "history (analysisSettled i (Inl m) s) = history s"
  "history (analysisSettled i (Inr res) s) =
     history s @ [\<lparr> timestamp = clock s, item_telemetry = r_telemetry (fl_env (inflight s ! i)),
                    item_analysis = res \<rparr>]"
  by (simp_all add: analysisSettled_def Let_def)

lemma analysisSettled_failed_analysis:
  "truthy (error (analysis (analysisSettled i (Inl m) s)))"
  "\<not> isLoading (analysis (analysisSettled i (Inl m) s))"
  by (simp_all add: analysisSettled_def Let_def analysisFailed_analysis)

lemma monDeps_attachRefs [simp]: "monDeps (attachRefs s) = monDeps s"
  by (simp add: monDeps_def)

lemma flushEffects_same:
  "inputMode prev = inputMode s \<Longrightarrow> monDeps prev = monDeps s \<Longrightarrow>
   flushEffects prev s = attachRefs s"
  by (simp add: flushEffects_def Let_def)

lemma attachRefs_idem: "attachRefs (attachRefs s) = attachRefs s"
  by (simp add: attachRefs_def split: option.splits)

lemma commit_same:
  "inputMode prev = inputMode s \<Longrightarrow> monDeps prev = monDeps s \<Longrightarrow>
   commit prev s = attachRefs s"
  by (simp add: commit_def Let_def flushEffects_same attachRefs_idem)

lemma attachRefs_analysis_cycles [simp]:
  "cycles (attachRefs s) = cycles s" "analysis (attachRefs s) = analysis s"
  by simp_all

lemma tick_fields [simp]:
  "inputMode (tick s) = inputMode s"
  "uploadType (tick s) = uploadType s"
  "isAutoMonitoring (tick s) = isAutoMonitoring s"
  "contextText (tick s) = contextText s"
  "thinkingLevel (tick s) = thinkingLevel s"
  "monitor (tick s) = monitor s"
  "history (tick s) = history s"
  "clock (tick s) = clock s"
  "inflight (tick s) = inflight s"
  by (simp_all add: tick_def split: option.splits)

lemma step_Tick_cycles:
  "monitor s = Some r \<Longrightarrow> \<not> r_isLoading r \<Longrightarrow> cycles (step P Tick s) = Suc (cycles s)"
  by (simp add: step_def commit_same monDeps_def tick_def)

lemma preprocessSettled_inflight_env:
  assumes "inflight (preprocessSettled P i img f s) = inflight s @ [fl]"
  shows "fl_env fl = cy_env (preprocessing s ! i) \<and>
         req_context (fl_request fl) =
           augmentedContext P (r_context (cy_env (preprocessing s ! i)))
             (r_telemetry (cy_env (preprocessing s ! i))) (clock s)"
  using assms
  by (auto simp: preprocessSettled_def Let_def split: Promise.splits if_splits)

lemma preprocessSettled_fields [simp]:
  "inputMode (preprocessSettled P i img f s) = inputMode s"
  "uploadType (preprocessSettled P i img f s) = uploadType s"
  "isAutoMonitoring (preprocessSettled P i img f s) = isAutoMonitoring s"
  "contextText (preprocessSettled P i img f s) = contextText s"
  "thinkingLevel (preprocessSettled P i img f s) = thinkingLevel s"
  "monitor (preprocessSettled P i img f s) = monitor s"
  "history (preprocessSettled P i img f s) = history s"
  "clock (preprocessSettled P i img f s) = clock s"
  "cycles (preprocessSettled P i img f s) = cycles s"
  by (simp_all add: preprocessSettled_def Let_def split: Promise.splits)

section \<open>Evaluating the example sessions\<close>

lemmas eval_defs = step_def commit_def flushEffects_def attachRefs_def monDeps_def render_def
  stopCamera_def clearMonitor_def cameraEffect_def monitorEffect_def startCamera_def
  callHandleAnalyze_def handleAnalyze_def imageToAnalyze_def captureFrame_def js_or_def truthy_def
  canMonitor_def isMonitoringCapable_def handleLiveCameraClick_def handleFileUploadClick_def
  cameraGranted_def freshVideo_def tick_def videoReadyState_def preprocessSettled_def
  preprocessImage_def ensureBase64_def startsWith_def remove_nth_def
  analysisSettled_def analysisFailed_def Let_def

lemma run_preprocessing:
  "run fixedPlatform (butlast overlapTrace) (initialApp exampleTelemetry) = cameraPreprocessing"
  by (simp add: overlapTrace_def cameraPreprocessing_def armedRender_def initialApp_def eval_defs)

lemma step_loading:
  "step fixedPlatform (PreprocessSettled 0 (Loaded (Encoded ''data:image/jpeg;base64,BBBB'')) FetchFails) cameraPreprocessing = cameraLoading"
  by (simp add: cameraLoading_def cameraPreprocessing_def armedRender_def initialApp_def eval_defs)

lemma run_append: "run P (es @ fs) s = run P fs (run P es s)"
  by (induction es arbitrary: s) simp_all

lemma run_loading: "run fixedPlatform overlapTrace (initialApp exampleTelemetry) = cameraLoading"
proof -
  have "overlapTrace = butlast overlapTrace @ [PreprocessSettled 0 (Loaded (Encoded ''data:image/jpeg;base64,BBBB'')) FetchFails]"
    by (simp add: overlapTrace_def)
  then have "run fixedPlatform overlapTrace (initialApp exampleTelemetry) =
      run fixedPlatform [PreprocessSettled 0 (Loaded (Encoded ''data:image/jpeg;base64,BBBB'')) FetchFails]
        (run fixedPlatform (butlast overlapTrace) (initialApp exampleTelemetry))"
    by (metis run_append)
  then show ?thesis by (simp add: run_preprocessing step_loading)
qed

lemma run_switch: "run fixedPlatform switchTrace (initialApp exampleTelemetry) = cameraLeftOn"
  by (simp add: switchTrace_def cameraLeftOn_def initialApp_def eval_defs)

lemma cameraLoading_facts:
  "length (inflight cameraLoading) = 1"
  "monitor cameraLoading = Some armedRender"
  "\<not> r_isLoading armedRender"
  "isAutoMonitoring cameraLoading"
  "history cameraLoading = []"
  "telemetry cameraLoading = exampleTelemetry"
  "clock cameraLoading = 0"
  "inflight cameraLoading =
     [\<lparr> fl_env = armedRender,
        fl_request = \<lparr> req_context = augmentedContext fixedPlatform ''test'' exampleTelemetry 0,
                       req_image = ''BBBB'', req_level = HIGH \<rparr> \<rparr>]"
  by (simp_all add: cameraLoading_def cameraPreprocessing_def armedRender_def initialApp_def)

lemma cameraPreprocessing_facts:
  "length (preprocessing cameraPreprocessing) = 1"
  "inflight cameraPreprocessing = []"
  "clock cameraPreprocessing = 0"
  "preprocessing cameraPreprocessing ! 0 =
     \<lparr> cy_env = armedRender, cy_image = ''data:image/jpeg;base64,AAAA'' \<rparr>"
  by (simp_all add: cameraPreprocessing_def initialApp_def)

section \<open>Analysis failure\<close>

lemma analysisRejected_legacy_facts:
  "truthy (error (l_analysis (analysisRejected_legacy m l)))"
  "\<not> isLoading (l_analysis (analysisRejected_legacy m l))"
  "\<not> l_isAutoMonitoring (analysisRejected_legacy m l)"
  "l_isAutoMonitoring l \<Longrightarrow> l_timer (analysisRejected_legacy m l) = None"
  by (simp_all add: analysisRejected_legacy_def analysisFailed_legacy_def monitorEffect_legacy_def
        monDeps_legacy_def truthy_def Let_def)

lemma legacyMonitoring_facts:
  "l_isAutoMonitoring legacyMonitoring" "l_timer legacyMonitoring = Some True"
  by (simp_all add: legacyMonitoring_def)

text \<open>
  Claim C3 as the code has it. When the call of the Analysis Client rejects, the state
  has an error message to show and is no longer loading, and no entry is appended to the
  history. In the App with the history ledger the failure leaves \<^verbatim>\<open>isAutoMonitoring\<close> and
  the armed monitoring timer as they were. In the earlier App the failure sets
  \<^verbatim>\<open>isAutoMonitoring\<close> to false, and the timer of a monitoring session is cleared: there,
  monitoring stops on error.
\<close>

theorem analysis_failure:
  assumes "i < length (inflight s)"
  shows "(let s' = step P (AnalysisSettled i (Inl message)) s in
            truthy (error (analysis s')) \<and> \<not> isLoading (analysis s') \<and>
            history s' = history s \<and> isAutoMonitoring s' = isAutoMonitoring s \<and>
            monitor s' = monitor s) \<and>
         (let l' = analysisRejected_legacy message l in
            truthy (error (l_analysis l')) \<and> \<not> isLoading (l_analysis l') \<and>
            \<not> l_isAutoMonitoring l' \<and>
            (l_isAutoMonitoring l \<longrightarrow> l_timer l' = None))"
proof -
  let ?h = "analysisSettled i (Inl message) s"
  have st: "step P (AnalysisSettled i (Inl message)) s = attachRefs ?h"
    using assms by (simp add: step_def commit_same monDeps_def)
  show ?thesis
    unfolding Let_def st
    by (simp add: analysisSettled_failed_analysis analysisSettled_history
          analysisRejected_legacy_facts)
qed

theorem analysis_failure_witness:
  "truthy (error (analysis (step fixedPlatform (AnalysisSettled 0 (Inl None)) cameraLoading))) \<and>
   history (step fixedPlatform (AnalysisSettled 0 (Inl None)) cameraLoading) = [] \<and>
   isAutoMonitoring (step fixedPlatform (AnalysisSettled 0 (Inl None)) cameraLoading) \<and>
   monitor (step fixedPlatform (AnalysisSettled 0 (Inl None)) cameraLoading) = Some armedRender \<and>
   truthy (error (l_analysis (analysisRejected_legacy None legacyMonitoring))) \<and>
   l_timer (analysisRejected_legacy None legacyMonitoring) = None"
  using analysis_failure [of 0 cameraLoading fixedPlatform None legacyMonitoring]
  by (simp add: cameraLoading_facts legacyMonitoring_facts Let_def)

text \<open>
  In the earlier App a failure stops auto-monitoring: in a state that is monitoring the
  camera, \<^verbatim>\<open>isAutoMonitoring\<close> is true before the rejection and false after it, and the timer
  is gone.
\<close>

theorem legacy_failure_stops_monitoring_counterexample:
  "l_isAutoMonitoring legacyMonitoring \<and>
   \<not> l_isAutoMonitoring (analysisRejected_legacy None legacyMonitoring) \<and>
   l_timer legacyMonitoring = Some True \<and>
   l_timer (analysisRejected_legacy None legacyMonitoring) = None"
  by (simp add: analysisRejected_legacy_facts legacyMonitoring_facts)

text \<open>
  Whether the timer of the App with the history ledger starts further cycles after a
  failure depends on the \<^verbatim>\<open>analysis.isLoading\<close> its callback reads. A timer armed in a
  render that was not loading calls \<^verbatim>\<open>handleAnalyze\<close> at its next tick after the failure. A
  timer armed in a render that was loading never calls \<^verbatim>\<open>handleAnalyze\<close>, however often it
  fires, and the session that changes the context while the call is outstanding and then
  sees the call rejected is left with such a timer although nothing is loading any more.
\<close>

lemma fresh_timer_calls_after_failure:
  assumes "i < length (inflight s)" "monitor s = Some r" "\<not> r_isLoading r"
  shows "cycles (step P Tick (step P (AnalysisSettled i (Inl message)) s)) =
         Suc (cycles (step P (AnalysisSettled i (Inl message)) s))"
proof -
  let ?h = "analysisSettled i (Inl message) s"
  have st: "step P (AnalysisSettled i (Inl message)) s = attachRefs ?h"
    using assms(1) by (simp add: step_def commit_same monDeps_def)
  have mon: "monitor (attachRefs ?h) = Some r" using assms(2) by simp
  show ?thesis
    unfolding st using step_Tick_cycles [of "attachRefs ?h" r P] mon assms(3) by simp
qed

lemma stale_loading_timer_never_calls:
  assumes "monitor s = Some r" "r_isLoading r"
  shows "cycles (run P (replicate n Tick) s) = cycles s \<and>
         monitor (run P (replicate n Tick) s) = Some r"
  using assms
proof (induction n arbitrary: s)
  case 0
  then show ?case by simp
next
  case (Suc n)
  have st: "step P Tick s = attachRefs s"
    using Suc.prems by (simp add: step_def commit_same monDeps_def tick_def)
  have "monitor (attachRefs s) = Some r" using Suc.prems by simp
  from Suc.IH [OF this Suc.prems(2)] show ?case
    by (simp add: st)
qed

lemma failure_with_stale_timer:
  "(case monitor (run fixedPlatform [SetContext ''test2'', AnalysisSettled 0 (Inl None)]
                    (run fixedPlatform overlapTrace (initialApp exampleTelemetry))) of
      None \<Rightarrow> False | Some r \<Rightarrow> r_isLoading r) \<and>
   \<not> isLoading (analysis (run fixedPlatform [SetContext ''test2'', AnalysisSettled 0 (Inl None)]
                    (run fixedPlatform overlapTrace (initialApp exampleTelemetry)))) \<and>
   isAutoMonitoring (run fixedPlatform [SetContext ''test2'', AnalysisSettled 0 (Inl None)]
                    (run fixedPlatform overlapTrace (initialApp exampleTelemetry)))"
  unfolding run_loading
  by (simp add: cameraLoading_def cameraPreprocessing_def armedRender_def initialApp_def eval_defs)

section \<open>Telemetry snapshots\<close>

text \<open>
  Claim C5. Take the cycle \<open>i\<close> whose preprocessing settles in state \<open>s\<close> and reaches the
  Analysis Client as flight \<open>fl\<close>, and any later state \<open>s2\<close> in which that flight is
  still outstanding at position \<open>j\<close>, whatever the telemetry has become there. The
  context string of the request was composed from the telemetry constant of the render that
  created the cycle's \<^verbatim>\<open>handleAnalyze\<close>, and when the call succeeds the entry appended to
  the history carries that same telemetry value.
\<close>

theorem telemetry_snapshot_fidelity:
  assumes "i < length (preprocessing s)"
      and "inflight (step P (PreprocessSettled i img f) s) = inflight s @ [fl]"
      and "j < length (inflight s2)"
      and "inflight s2 ! j = fl"
  shows "req_context (fl_request fl) =
           augmentedContext P (r_context (cy_env (preprocessing s ! i)))
             (r_telemetry (cy_env (preprocessing s ! i))) (clock s) \<and>
         history (step P (AnalysisSettled j (Inr res)) s2) =
           history s2 @ [\<lparr> timestamp = clock s2,
                            item_telemetry = r_telemetry (cy_env (preprocessing s ! i)),
                            item_analysis = res \<rparr>]"
proof -
  have "inflight (preprocessSettled P i img f s) = inflight s @ [fl]"
    using assms(1,2) by (simp add: step_def)
  from preprocessSettled_inflight_env [OF this]
  have env: "fl_env fl = cy_env (preprocessing s ! i)"
    and req: "req_context (fl_request fl) =
           augmentedContext P (r_context (cy_env (preprocessing s ! i)))
             (r_telemetry (cy_env (preprocessing s ! i))) (clock s)"
    by simp_all
  have "history (step P (AnalysisSettled j (Inr res)) s2) =
          history (analysisSettled j (Inr res) s2)"
    using assms(3) by (simp add: step_def)
  with env req assms(4) show ?thesis
    by (simp add: analysisSettled_history)
qed

theorem telemetry_snapshot_fidelity_witness:
  "telemetry (step fixedPlatform (TelemetryChanged \<lparr> temperature = 9999, pressure = 1 \<rparr>) cameraLoading)
     = \<lparr> temperature = 9999, pressure = 1 \<rparr> \<and>
   history (step fixedPlatform
              (AnalysisSettled 0 (Inr \<lparr> status = NORMAL, observation = ''o'', deduction = ''d'',
                                         recommendation = ''r'' \<rparr>))
              (step fixedPlatform (TelemetryChanged \<lparr> temperature = 9999, pressure = 1 \<rparr>)
                 cameraLoading)) =
     [\<lparr> timestamp = 0, item_telemetry = exampleTelemetry,
        item_analysis = \<lparr> status = NORMAL, observation = ''o'', deduction = ''d'',
                          recommendation = ''r'' \<rparr> \<rparr>]"
proof -
  let ?t = "\<lparr> temperature = 9999, pressure = 1 \<rparr> :: nat TelemetryData"
  let ?s2 = "step fixedPlatform (TelemetryChanged ?t) cameraLoading"
  let ?fl = "\<lparr> fl_env = armedRender,
              fl_request = \<lparr> req_context = augmentedContext fixedPlatform ''test'' exampleTelemetry 0,
                             req_image = ''BBBB'', req_level = HIGH \<rparr> \<rparr>"
  have a: "0 < length (preprocessing cameraPreprocessing)"
    by (simp add: cameraPreprocessing_facts)
  have b: "inflight (step fixedPlatform (PreprocessSettled 0 (Loaded (Encoded ''data:image/jpeg;base64,BBBB'')) FetchFails) cameraPreprocessing)
             = inflight cameraPreprocessing @ [?fl]"
    by (simp add: step_loading cameraLoading_facts cameraPreprocessing_facts)
  have s2: "?s2 = attachRefs (cameraLoading\<lparr>telemetry := ?t\<rparr>)"
    by (simp add: step_def commit_same monDeps_def)
  have c: "0 < length (inflight ?s2)" "inflight ?s2 ! 0 = ?fl" "clock ?s2 = 0"
    "history ?s2 = []" "telemetry ?s2 = ?t"
    unfolding s2 by (simp_all add: cameraLoading_facts)
  have d: "r_telemetry (cy_env (preprocessing cameraPreprocessing ! 0)) = exampleTelemetry"
    by (simp add: cameraPreprocessing_facts armedRender_def)
  show ?thesis
    using telemetry_snapshot_fidelity [OF a b c(1) c(2)] c(3-5) d by simp
qed

section \<open>Overlapping analysis calls\<close>

text \<open>
  Claim C1 on the code. In the session \<open>overlapTrace\<close> one call of the Analysis Client is
  outstanding and \<^verbatim>\<open>isLoading\<close> is true; the timer can fire, and when it does and the
  preprocessing of the new cycle settles, a second call is outstanding beside the
  first: the timer callback reads \<^verbatim>\<open>analysis.isLoading\<close> of the render that armed the timer,
  and \<^verbatim>\<open>analysis.isLoading\<close> is not a dependency of the monitoring effect.
\<close>

theorem second_call_while_loading:
  "isLoading (analysis (run fixedPlatform overlapTrace (initialApp exampleTelemetry))) \<and>
   length (inflight (run fixedPlatform overlapTrace (initialApp exampleTelemetry))) = 1 \<and>
   enabled Tick (run fixedPlatform overlapTrace (initialApp exampleTelemetry)) \<and>
   length (inflight (run fixedPlatform [Tick, PreprocessSettled 0 (Loaded (Encoded ''data:image/jpeg;base64,BBBB'')) FetchFails]
      (run fixedPlatform overlapTrace (initialApp exampleTelemetry)))) = 2"
  unfolding run_loading
  by (simp add: cameraLoading_def cameraPreprocessing_def armedRender_def initialApp_def eval_defs)

section \<open>Leaving camera mode\<close>

text \<open>
  Claim C9 on the code. In the session \<open>switchTrace\<close> the camera is granted with track 7
  and the user then clicks File Upload: afterwards the input mode is \<^verbatim>\<open>UPLOAD\<close>, track 7
  is still live, and \<^verbatim>\<open>videoTrack\<close>, \<^verbatim>\<open>capabilities\<close> and \<^verbatim>\<open>isCameraActive\<close> still hold the camera's
  values: \<^verbatim>\<open>stopCamera\<close> runs when the camera \<^verbatim>\<open><video>\<close> has left the tree and
  \<^verbatim>\<open>webcamRef.current\<close> is \<^verbatim>\<open>null\<close>.
\<close>

theorem camera_left_running:
  "inputMode (run fixedPlatform switchTrace (initialApp exampleTelemetry)) = UPLOAD \<and>
   7 \<in> liveTracks (run fixedPlatform switchTrace (initialApp exampleTelemetry)) \<and>
   videoTrack (run fixedPlatform switchTrace (initialApp exampleTelemetry)) = Some 7 \<and>
   capabilities (run fixedPlatform switchTrace (initialApp exampleTelemetry)) =
     Some (Capabilities True False False) \<and>
   isCameraActive (run fixedPlatform switchTrace (initialApp exampleTelemetry))"
  unfolding run_switch by (simp add: cameraLeftOn_def initialApp_def)

section \<open>Commits settle\<close>

text \<open>
  After the two rounds of \<open>commit\<close> a further round changes nothing: no dependency
  differs any more and the refs already follow the tree.
\<close>

lemma attachRefs_fixed:
  assumes "refsFollowTree s"
  shows "attachRefs s = s"
proof -
  have w: "(if inputMode s = CAMERA
            then Some (case webcamRef s of None \<Rightarrow> freshVideo | Some v \<Rightarrow> v) else None) = webcamRef s"
    using assms by (cases "webcamRef s") (simp_all add: refsFollowTree_def)
  have f: "(if inputMode s = UPLOAD \<and> (truthy (imagePreview s) \<or> truthy (videoFileSrc s))
               \<and> uploadType s = Some VIDEO \<and> truthy (videoFileSrc s)
            then Some (case fileVideoRef s of None \<Rightarrow> freshVideo | Some v \<Rightarrow> v) else None)
           = fileVideoRef s"
    using assms by (cases "fileVideoRef s") (auto simp: refsFollowTree_def)
  show ?thesis unfolding attachRefs_def w f by simp
qed

lemma webcamRef_attachRefs: "(webcamRef (attachRefs s) \<noteq> None) = (inputMode s = CAMERA)"
  by (simp add: attachRefs_def)

lemma fileVideoRef_attachRefs:
  "(fileVideoRef (attachRefs s) \<noteq> None) =
     (inputMode s = UPLOAD \<and> uploadType s = Some VIDEO \<and> truthy (videoFileSrc s))"
  by (auto simp: attachRefs_def)

lemma refsFollowTree_attachRefs: "refsFollowTree (attachRefs s)"
  unfolding refsFollowTree_def
  by (simp only: webcamRef_attachRefs fileVideoRef_attachRefs attachRefs_fields simp_thms)

lemma webcamRef_stopCamera: "(webcamRef (stopCamera s) \<noteq> None) = (webcamRef s \<noteq> None)"
  by (cases "webcamRef s") (simp_all add: stopCamera_def Let_def split: option.splits)

lemma webcamRef_cameraEffect: "(webcamRef (cameraEffect r s) \<noteq> None) = (webcamRef s \<noteq> None)"
  using webcamRef_stopCamera [of s]
  by (simp add: cameraEffect_def startCamera_def Let_def)

lemma refsFollowTree_stopCamera: "refsFollowTree s \<Longrightarrow> refsFollowTree (stopCamera s)"
  unfolding refsFollowTree_def
  by (simp only: webcamRef_stopCamera stopCamera_fields)

lemma refsFollowTree_clearMonitor: "refsFollowTree s \<Longrightarrow> refsFollowTree (clearMonitor s)"
  unfolding refsFollowTree_def
  by (simp add: clearMonitor_def)

lemma refsFollowTree_cameraEffect: "refsFollowTree s \<Longrightarrow> refsFollowTree (cameraEffect r s)"
  unfolding refsFollowTree_def
  by (simp only: webcamRef_cameraEffect cameraEffect_fields)

lemma refsFollowTree_monitorEffect: "refsFollowTree s \<Longrightarrow> refsFollowTree (monitorEffect r s)"
  unfolding refsFollowTree_def
  by (simp only: monitorEffect_fields)

lemma refsFollowTree_flushEffects: "refsFollowTree (flushEffects prev s)"
  by (simp add: flushEffects_def Let_def refsFollowTree_stopCamera refsFollowTree_clearMonitor
        refsFollowTree_cameraEffect refsFollowTree_monitorEffect refsFollowTree_attachRefs)

lemma commit_settled:
  "flushEffects (flushEffects prev s) (commit prev s) = commit prev s"
proof -
  let ?s1 = "flushEffects prev s"
  let ?s2 = "commit prev s"
  have "inputMode ?s1 = inputMode ?s2" by simp
  moreover have "monDeps ?s1 = monDeps ?s2" by (simp add: monDeps_def commit_auto)
  ultimately have "flushEffects ?s1 ?s2 = attachRefs ?s2" by (rule flushEffects_same)
  moreover have "refsFollowTree ?s2"
    by (simp add: commit_def Let_def refsFollowTree_flushEffects)
  ultimately show ?thesis by (simp add: attachRefs_fixed)
qed

section \<open>Entering camera mode\<close>

lemma handleLiveCameraClick_fields [simp]:
  "inputMode (handleLiveCameraClick s) = CAMERA"
  "isAutoMonitoring (handleLiveCameraClick s) = True"
  "uploadType (handleLiveCameraClick s) = uploadType s"
  "cycles (handleLiveCameraClick s) = cycles s"
  "cameraRequests (handleLiveCameraClick s) = cameraRequests s"
  by (simp_all add: handleLiveCameraClick_def)

lemma more_fields [simp]:
  "cameraRequests (stopCamera s) = cameraRequests s"
  "cycles (stopCamera s) = cycles s"
  "cameraRequests (cameraEffect r s) =
     (if r_inputMode r = CAMERA then Suc (cameraRequests s) else cameraRequests s)"
  "cycles (monitorEffect r s) =
     (if r_isAutoMonitoring r \<and> canMonitor (r_inputMode r) (r_uploadType r)
      then Suc (cycles s) else cycles s)"
  by (simp_all add: cameraEffect_def startCamera_def Let_def monitorEffect_def)

text \<open>
  Claim C10. Clicking Live Camera in upload mode puts the component in camera mode with
  auto-monitoring on, without any use of the monitoring toggle: the monitoring timer is
  armed with the constants of the render that follows the click, \<^verbatim>\<open>handleAnalyze\<close> has been
  called once (the immediate cycle) and one camera request has been started. Both the
  button handler and the mode-change effect in camera mode set \<^verbatim>\<open>isAutoMonitoring\<close> to true.
\<close>

theorem camera_mode_arms_monitoring:
  "(inputMode s = UPLOAD \<longrightarrow>
      (let s' = step P LiveCameraClick s in
         inputMode s' = CAMERA \<and> isAutoMonitoring s' \<and>
         monitor s' = Some (render (handleLiveCameraClick s)) \<and>
         cycles s' = Suc (cycles s) \<and>
         cameraRequests s' = Suc (cameraRequests s))) \<and>
   isAutoMonitoring (handleLiveCameraClick s) \<and>
   (r_inputMode r = CAMERA \<longrightarrow> isAutoMonitoring (cameraEffect r s))"
proof -
  have "isAutoMonitoring (handleLiveCameraClick s)" by simp
  moreover have "r_inputMode r = CAMERA \<longrightarrow> isAutoMonitoring (cameraEffect r s)"
    by (simp add: cameraEffect_auto)
  moreover have "inputMode s = UPLOAD \<longrightarrow>
      (let s' = step P LiveCameraClick s in
         inputMode s' = CAMERA \<and> isAutoMonitoring s' \<and>
         monitor s' = Some (render (handleLiveCameraClick s)) \<and>
         cycles s' = Suc (cycles s) \<and>
         cameraRequests s' = Suc (cameraRequests s))"
  proof
    assume up: "inputMode s = UPLOAD"
    let ?h = "handleLiveCameraClick s"
    let ?s1 = "flushEffects s ?h"
    have auto1: "isAutoMonitoring ?s1" using up by (simp add: flushEffects_auto)
    have mon1: "monitor ?s1 = Some (render ?h)"
      using up by (simp add: flushEffects_monitor monDeps_def canMonitor_def)
    have cyc1: "cycles ?s1 = Suc (cycles s)"
      using up by (simp add: flushEffects_def Let_def monDeps_def canMonitor_def)
    have req1: "cameraRequests ?s1 = Suc (cameraRequests s)"
      using up by (simp add: flushEffects_def Let_def monDeps_def canMonitor_def)
    have deps: "inputMode ?h = inputMode ?s1" "monDeps ?h = monDeps ?s1"
      using auto1 by (simp_all add: monDeps_def)
    have "step P LiveCameraClick s = attachRefs ?s1"
      using deps by (simp add: step_def commit_def Let_def flushEffects_same)
    then show "(let s' = step P LiveCameraClick s in
         inputMode s' = CAMERA \<and> isAutoMonitoring s' \<and>
         monitor s' = Some (render (handleLiveCameraClick s)) \<and>
         cycles s' = Suc (cycles s) \<and>
         cameraRequests s' = Suc (cameraRequests s))"
      using auto1 mon1 cyc1 req1 by (simp add: Let_def)
  qed
  ultimately show ?thesis by blast
qed

theorem camera_mode_arms_monitoring_witness:
  "inputMode (step fixedPlatform LiveCameraClick (initialApp exampleTelemetry)) = CAMERA \<and>
   isAutoMonitoring (step fixedPlatform LiveCameraClick (initialApp exampleTelemetry)) \<and>
   cycles (step fixedPlatform LiveCameraClick (initialApp exampleTelemetry)) = 1 \<and>
   cameraRequests (step fixedPlatform LiveCameraClick (initialApp exampleTelemetry)) = 1 \<and>
   isAutoMonitoring (cameraEffect armedRender (initialApp exampleTelemetry))"
  using camera_mode_arms_monitoring [of "initialApp exampleTelemetry" fixedPlatform armedRender]
  by (simp add: Let_def initialApp_def armedRender_def)

section \<open>The timer callback and the teardown, in general\<close>

text \<open>
  Two facts behind the sessions evaluated above. A tick of a timer whose callback does
  not see a loading state starts a cycle whenever an image and a context are there,
  whatever \<^verbatim>\<open>analysis.isLoading\<close> is in the state. And clicking File Upload stops no track and
  releases nothing, in any state; \<open>stopCamera\<close> itself tears the camera down when it finds
  the ref attached.
\<close>

lemma imageToAnalyze_cycles [simp]:
  "imageToAnalyze r m (s\<lparr>cycles := c\<rparr>) = imageToAnalyze r m s"
  by (simp add: imageToAnalyze_def captureFrame_def cong: option.case_cong if_cong)

lemma handleAnalyze_starts:
  assumes "imageToAnalyze r m s = Some img" "img \<noteq> []" "r_context r \<noteq> []"
  shows "preprocessing (handleAnalyze r m s) = preprocessing s @ [\<lparr> cy_env = r, cy_image = img \<rparr>]"
    and "isLoading (analysis (handleAnalyze r m s))"
  using assms by (simp_all add: handleAnalyze_def)

lemma tick_ignores_live_loading:
  assumes "monitor s = Some r" "\<not> r_isLoading r" "imageToAnalyze r None s = Some img"
    "img \<noteq> []" "r_context r \<noteq> []"
  shows "preprocessing (step P Tick s) = preprocessing s @ [\<lparr> cy_env = r, cy_image = img \<rparr>]"
proof -
  have "step P Tick s = attachRefs (tick s)"
    using assms(1) by (simp add: step_def commit_same monDeps_def)
  moreover have "tick s = handleAnalyze r None (s\<lparr>cycles := Suc (cycles s)\<rparr>)"
    using assms(1,2) by (simp add: tick_def callHandleAnalyze_def)
  ultimately show ?thesis
    using handleAnalyze_starts(1) [of r None "s\<lparr>cycles := Suc (cycles s)\<rparr>" img] assms(3-5)
    by simp
qed

lemma webcamRef_detached:
  "inputMode s \<noteq> CAMERA \<Longrightarrow> webcamRef (attachRefs s) = None"
  by (simp add: attachRefs_def)

lemma flushEffects_leaves_camera:
  assumes "inputMode s \<noteq> CAMERA"
  shows "liveTracks (flushEffects prev s) = liveTracks s"
    "videoTrack (flushEffects prev s) = videoTrack s"
    "capabilities (flushEffects prev s) = capabilities s"
    "isCameraActive (flushEffects prev s) = isCameraActive s"
  using assms
  by (simp_all add: flushEffects_def Let_def cameraEffect_def stopCamera_detached webcamRef_detached)

lemma upload_click_stops_nothing:
  "liveTracks (step P FileUploadClick s) = liveTracks s \<and>
   videoTrack (step P FileUploadClick s) = videoTrack s \<and>
   capabilities (step P FileUploadClick s) = capabilities s \<and>
   isCameraActive (step P FileUploadClick s) = isCameraActive s"
  by (simp add: step_def commit_def Let_def flushEffects_leaves_camera handleFileUploadClick_def)

lemma stopCamera_attached:
  assumes "webcamRef s = Some v" "srcObject v = Some stream"
  shows "liveTracks (stopCamera s) \<inter> set stream = {}"
    "webcamRef (stopCamera s) = Some (v\<lparr>srcObject := None\<rparr>)"
    "videoTrack (stopCamera s) = None" "capabilities (stopCamera s) = None"
    "\<not> isCameraActive (stopCamera s)"
  using assms by (auto simp: stopCamera_def)

section \<open>The history ledger\<close>

lemma handler_misc_fields [simp]:
  "monitor (handleGallerySelect c u s) = monitor s"
  "clock (handleGallerySelect c u s) = clock s"
  "history (handleGallerySelect c u s) = []"
  "isAutoMonitoring (handleGallerySelect c u s) = False"
  "inputMode (handleGallerySelect c u s) = UPLOAD"
  "uploadType (handleGallerySelect c u s) = Some IMAGE"
  "monitor (handleFileChange f s) = monitor s"
  "clock (handleFileChange f s) = clock s"
  "history (handleFileChange f s) = history s"
  "inputMode (handleFileChange f s) = inputMode s"
  "monitor (fileLoaded res s) = monitor s"
  "clock (fileLoaded res s) = clock s"
  "history (fileLoaded res s) = history s"
  "isAutoMonitoring (fileLoaded res s) = False"
  "inputMode (fileLoaded res s) = inputMode s"
  "uploadType (fileLoaded res s) = Some IMAGE"
  "monitor (cameraGranted st caps s) = monitor s"
  "clock (cameraGranted st caps s) = clock s"
  "history (cameraGranted st caps s) = history s"
  "isAutoMonitoring (cameraGranted st caps s) = isAutoMonitoring s"
  "inputMode (cameraGranted st caps s) = inputMode s"
  "uploadType (cameraGranted st caps s) = uploadType s"
  "monitor (cameraDenied s) = monitor s"
  "clock (cameraDenied s) = clock s"
  "history (cameraDenied s) = history s"
  "isAutoMonitoring (cameraDenied s) = isAutoMonitoring s"
  "inputMode (cameraDenied s) = inputMode s"
  "uploadType (cameraDenied s) = uploadType s"
  "monitor (videoReadyState cam n s) = monitor s"
  "clock (videoReadyState cam n s) = clock s"
  "history (videoReadyState cam n s) = history s"
  "isAutoMonitoring (videoReadyState cam n s) = isAutoMonitoring s"
  "inputMode (videoReadyState cam n s) = inputMode s"
  "uploadType (videoReadyState cam n s) = uploadType s"
  "monitor (handleLiveCameraClick s) = monitor s"
  "clock (handleLiveCameraClick s) = clock s"
  "history (handleLiveCameraClick s) = history s"
  "monitor (handleFileUploadClick s) = monitor s"
  "clock (handleFileUploadClick s) = clock s"
  "history (handleFileUploadClick s) = history s"
  "isAutoMonitoring (handleFileUploadClick s) = False"
  by (simp_all add: handleGallerySelect_def handleFileChange_def fileLoaded_def cameraGranted_def
        cameraDenied_def videoReadyState_def handleLiveCameraClick_def handleFileUploadClick_def
        Let_def split: option.splits list.splits)

lemma handleFileChange_gate:
  "isAutoMonitoring (handleFileChange f s) \<Longrightarrow>
     isAutoMonitoring s \<and> uploadType (handleFileChange f s) = uploadType s"
  by (auto simp: handleFileChange_def Let_def split: option.splits if_splits)

lemma handler_monitor: "monitor (handler P e s) = monitor s"
  by (cases e) simp_all

lemma handler_history: "history (handler P e s) = ledgerAfter e s"
proof (cases e)
  case (AnalysisSettled i out)
  then show ?thesis by (cases out) (simp_all add: analysisSettled_history)
qed simp_all

lemma handler_clock: "clock s \<le> clock (handler P e s)"
  by (cases e) simp_all

lemma handler_clock_settled: "clock (handler P (AnalysisSettled i out) s) = clock s"
  by simp

lemma step_history:
  "history (step P e s) = (if enabled e s then ledgerAfter e s else history s)"
  by (simp add: step_def handler_history)

lemma step_clock: "clock s \<le> clock (step P e s)"
  by (simp add: step_def handler_clock)

lemma ledgerAfter_cases:
  "ledgerAfter e s = [] \<or> ledgerAfter e s = history s \<or>
   (\<exists>i res. e = AnalysisSettled i (Inr res) \<and>
      ledgerAfter e s = history s @ [\<lparr> timestamp = clock s,
        item_telemetry = r_telemetry (fl_env (inflight s ! i)), item_analysis = res \<rparr>])"
proof (cases e)
  case (AnalysisSettled i out)
  then show ?thesis by (cases out) simp_all
qed simp_all

lemma ledgerOrdered_step:
  assumes "ledgerOrdered s"
  shows "ledgerOrdered (step P e s)"
proof (cases "enabled e s")
  case False
  then show ?thesis using assms by (simp add: step_def)
next
  case True
  have clk: "clock s \<le> clock (step P e s)" by (rule step_clock)
  have h: "history (step P e s) = ledgerAfter e s" using True by (simp add: step_history)
  from ledgerAfter_cases [of e s] show ?thesis
  proof (elim disjE exE conjE)
    assume "ledgerAfter e s = []"
    then show ?thesis by (simp add: ledgerOrdered_def h)
  next
    assume "ledgerAfter e s = history s"
    then show ?thesis
      using assms clk by (auto simp: ledgerOrdered_def h list_all_iff)
  next
    fix i res
    assume e: "e = AnalysisSettled i (Inr res)"
      and l: "ledgerAfter e s = history s @ [\<lparr> timestamp = clock s,
        item_telemetry = r_telemetry (fl_env (inflight s ! i)), item_analysis = res \<rparr>]"
    have "clock (step P e s) = clock s" using True e by (simp add: step_def)
    then show ?thesis
      using assms l by (auto simp: ledgerOrdered_def h list_all_iff sorted_append)
  qed
qed

lemma ledgerOrdered_run: "ledgerOrdered s \<Longrightarrow> ledgerOrdered (run P es s)"
  by (induction es arbitrary: s) (simp_all add: ledgerOrdered_step)

lemma countAfter_length: "length (ledgerAfter e s) = countAfter e (length (history s))"
proof (cases e)
  case (AnalysisSettled i out)
  then show ?thesis by (cases out) simp_all
qed simp_all

lemma length_history_run:
  "length (history (run P es s)) = successes P es s (length (history s))"
proof (induction es arbitrary: s)
  case Nil
  show ?case by simp
next
  case (Cons e es)
  have "length (history (step P e s)) =
          (if enabled e s then countAfter e (length (history s)) else length (history s))"
    by (simp add: step_history countAfter_length)
  with Cons show ?case by simp
qed

text \<open>
  Claim C2 as the code has it. An event that happens changes the ledger as
  \<open>ledgerAfter\<close> says: a resolved analysis call appends exactly one entry at the end, a
  gallery selection empties the ledger, and no other event removes, reorders or adds an
  entry. Along every session the length of the ledger is the number of analysis calls
  that resolved since the last gallery selection, and a ledger in timestamp order stays in
  timestamp order.
\<close>

theorem history_ledger:
  "history (step P e s) = (if enabled e s then ledgerAfter e s else history s) \<and>
   length (history (run P es s)) = successes P es s (length (history s)) \<and>
   (ledgerOrdered s \<longrightarrow> sorted (map timestamp (history (run P es s))))"
  using step_history [of P e s] length_history_run [of P es s] ledgerOrdered_run [of s P es]
  by (simp add: ledgerOrdered_def)

theorem history_ledger_witness:
  "history (step fixedPlatform (AnalysisSettled 0 (Inr exampleResult)) cameraLoading) =
     [\<lparr> timestamp = 0, item_telemetry = exampleTelemetry, item_analysis = exampleResult \<rparr>] \<and>
   length (history (run fixedPlatform [ClockAdvance 5, AnalysisSettled 0 (Inr exampleResult)]
                      cameraLoading)) = 1 \<and>
   sorted (map timestamp
     (history (run fixedPlatform [ClockAdvance 5, AnalysisSettled 0 (Inr exampleResult)]
                 cameraLoading)))"
proof -
  let ?e = "AnalysisSettled 0 (Inr exampleResult) :: nat Event"
  let ?es = "[ClockAdvance 5, ?e]"
  have en: "enabled ?e cameraLoading" by (simp add: cameraLoading_facts)
  have la: "ledgerAfter ?e cameraLoading =
      [\<lparr> timestamp = 0, item_telemetry = exampleTelemetry, item_analysis = exampleResult \<rparr>]"
    by (simp add: cameraLoading_facts armedRender_def)
  have en2: "inflight (step fixedPlatform (ClockAdvance 5) cameraLoading) = inflight cameraLoading"
    by (simp add: step_def)
  have su: "successes fixedPlatform ?es cameraLoading (length (history cameraLoading)) = 1"
    by (simp add: en2 cameraLoading_facts)
  have lo: "ledgerOrdered cameraLoading"
    by (simp add: ledgerOrdered_def cameraLoading_facts)
  show ?thesis
    using history_ledger [of fixedPlatform ?e cameraLoading ?es] en la su lo
    by (simp del: run.simps successes.simps)
qed

text \<open>
  The ledger is not append-only: in the session \<open>overlapTrace\<close>, once the outstanding call
  has resolved the ledger holds one entry, and after opening the gallery and selecting an
  experiment it is empty.
\<close>

theorem gallery_clears_history_counterexample:
  "history (run fixedPlatform [AnalysisSettled 0 (Inr exampleResult), OpenGallery]
              (run fixedPlatform overlapTrace (initialApp exampleTelemetry))) =
     [\<lparr> timestamp = 0, item_telemetry = exampleTelemetry, item_analysis = exampleResult \<rparr>] \<and>
   history (run fixedPlatform [AnalysisSettled 0 (Inr exampleResult), OpenGallery,
                               GallerySelect ''Experiment: Acid-Base Titration'' ''https://placehold.co/600x400'']
              (run fixedPlatform overlapTrace (initialApp exampleTelemetry))) = []"
  unfolding run_loading
  by (simp add: cameraLoading_def cameraPreprocessing_def armedRender_def initialApp_def
        handleGallerySelect_def resetAnalysis_def eval_defs)

section \<open>Auto-monitoring is gated on the source\<close>

lemma handler_gate:
  assumes "enabled e s" "isAutoMonitoring s \<longrightarrow> isMonitoringCapable s"
  shows "isAutoMonitoring (handler P e s) \<longrightarrow> isMonitoringCapable (handler P e s)"
proof (cases e)
  case (FileChange f)
  then show ?thesis
    using assms handleFileChange_gate [of f s]
    by (auto simp: isMonitoringCapable_def)
next
  case ToggleMonitoring
  then show ?thesis using assms by (simp add: isMonitoringCapable_def)
next
  case LiveCameraClick
  then show ?thesis by (simp add: isMonitoringCapable_def canMonitor_def)
qed (use assms in \<open>simp_all add: isMonitoringCapable_def\<close>)

lemma commit_gated:
  assumes "gated prev" "monitor s = monitor prev"
    "isAutoMonitoring s \<longrightarrow> isMonitoringCapable s"
  shows "gated (commit prev s)"
proof -
  let ?s1 = "flushEffects prev s"
  have auto1: "isAutoMonitoring ?s1 \<longrightarrow> isMonitoringCapable s"
    using assms(3)
    by (auto simp: flushEffects_auto isMonitoringCapable_def canMonitor_def split: if_splits)
  have mon1: "monitor ?s1 \<noteq> None \<longrightarrow>
      isAutoMonitoring s \<and> isMonitoringCapable s \<and> monDeps prev \<noteq> monDeps s \<or>
      monDeps prev = monDeps s \<and> monitor prev \<noteq> None"
    using assms(2) by (auto simp: flushEffects_monitor isMonitoringCapable_def split: if_splits)
  have prev: "monitor prev \<noteq> None \<longrightarrow> isAutoMonitoring prev \<and> isMonitoringCapable prev"
    using assms(1) by (auto simp: gated_def split: option.splits)
  have cap: "isMonitoringCapable (commit prev s) = isMonitoringCapable s"
    "isMonitoringCapable ?s1 = isMonitoringCapable s"
    by (simp_all add: isMonitoringCapable_def)
  have auto2: "isAutoMonitoring (commit prev s) = isAutoMonitoring ?s1"
    by (rule commit_auto)
  have mon2: "monitor (commit prev s) =
      (if monDeps s \<noteq> monDeps ?s1
       then (if isAutoMonitoring ?s1 \<and> isMonitoringCapable s then Some (render ?s1) else None)
       else monitor ?s1)"
    by (simp add: commit_def Let_def flushEffects_monitor isMonitoringCapable_def)
  have deps: "monDeps s = monDeps ?s1 \<longleftrightarrow> isAutoMonitoring s = isAutoMonitoring ?s1"
    by (auto simp: monDeps_def)
  have same: "monDeps prev = monDeps s \<Longrightarrow>
      isAutoMonitoring prev = isAutoMonitoring s \<and> isMonitoringCapable prev = isMonitoringCapable s"
    by (auto simp: monDeps_def isMonitoringCapable_def)
  show ?thesis
    unfolding gated_def cap auto2 mon2
    using auto1 mon1 prev deps same
    by (auto split: option.splits if_splits)
qed

lemma step_gated: "gated s \<Longrightarrow> gated (step P e s)"
proof (cases "enabled e s")
  case False
  assume "gated s"
  with False show ?thesis by (simp add: step_def)
next
  case True
  assume g: "gated s"
  then have "isAutoMonitoring s \<longrightarrow> isMonitoringCapable s"
    by (auto simp: gated_def split: if_splits)
  from handler_gate [OF True this, of P] handler_monitor [of P e s] g
  show ?thesis
    using True by (simp add: step_def commit_gated)
qed

lemma run_gated: "gated s \<Longrightarrow> gated (run P es s)"
  by (induction es arbitrary: s) (simp_all add: step_gated)

lemma gated_initial: "gated (initialApp t0)"
  by (simp add: gated_def initialApp_def)

lemma step_static_image:
  "enabled (FileLoaded res) s \<Longrightarrow> \<not> isAutoMonitoring (step P (FileLoaded res) s)"
  "enabled (FileLoaded res) s \<Longrightarrow> uploadType (step P (FileLoaded res) s) = Some IMAGE"
  "enabled (GallerySelect c u) s \<Longrightarrow> \<not> isAutoMonitoring (step P (GallerySelect c u) s)"
  "enabled (GallerySelect c u) s \<Longrightarrow> uploadType (step P (GallerySelect c u) s) = Some IMAGE"
  "enabled (GallerySelect c u) s \<Longrightarrow> inputMode (step P (GallerySelect c u) s) = UPLOAD"
  by (simp_all add: step_def commit_auto flushEffects_auto)

text \<open>
  Claim C4. In every state a session reaches from the initial state, auto-monitoring is
  on only if the source is the camera or an uploaded video, and the monitoring timer
  runs only if auto-monitoring is on for such a source; so with a static image (upload
  mode, no video) auto-monitoring is off and no timer runs. Loading an uploaded image and
  selecting a gallery experiment both leave \<^verbatim>\<open>isAutoMonitoring\<close> false with a static image
  as the upload. And the monitoring effect of a render whose source is a static image arms
  no timer and starts no cycle, whatever \<^verbatim>\<open>isAutoMonitoring\<close> is in that render.
\<close>

theorem auto_monitoring_gated:
  "(isAutoMonitoring (run P es (initialApp t0)) \<longrightarrow>
      isMonitoringCapable (run P es (initialApp t0))) \<and>
   (monitor (run P es (initialApp t0)) \<noteq> None \<longrightarrow>
      isAutoMonitoring (run P es (initialApp t0)) \<and>
      isMonitoringCapable (run P es (initialApp t0))) \<and>
   (inputMode (run P es (initialApp t0)) = UPLOAD \<and>
    uploadType (run P es (initialApp t0)) \<noteq> Some VIDEO \<longrightarrow>
      \<not> isAutoMonitoring (run P es (initialApp t0)) \<and>
      monitor (run P es (initialApp t0)) = None) \<and>
   (0 < fileReaders s \<longrightarrow>
      \<not> isAutoMonitoring (step P (FileLoaded res) s) \<and>
      uploadType (step P (FileLoaded res) s) = Some IMAGE) \<and>
   (isGalleryOpen s \<longrightarrow>
      \<not> isAutoMonitoring (step P (GallerySelect c u) s) \<and>
      uploadType (step P (GallerySelect c u) s) = Some IMAGE \<and>
      inputMode (step P (GallerySelect c u) s) = UPLOAD) \<and>
   (r_inputMode r = UPLOAD \<and> r_uploadType r \<noteq> Some VIDEO \<longrightarrow>
      monitor (monitorEffect r s) = None \<and> cycles (monitorEffect r s) = cycles s)"
proof -
  have g: "gated (run P es (initialApp t0))"
    by (rule run_gated [OF gated_initial])
  have a: "isAutoMonitoring (run P es (initialApp t0)) \<longrightarrow>
      isMonitoringCapable (run P es (initialApp t0))"
    using g by (auto simp: gated_def split: if_splits)
  have b: "monitor (run P es (initialApp t0)) \<noteq> None \<longrightarrow>
      isAutoMonitoring (run P es (initialApp t0)) \<and>
      isMonitoringCapable (run P es (initialApp t0))"
    using g by (auto simp: gated_def split: option.splits)
  have c: "inputMode (run P es (initialApp t0)) = UPLOAD \<and>
    uploadType (run P es (initialApp t0)) \<noteq> Some VIDEO \<longrightarrow>
      \<not> isAutoMonitoring (run P es (initialApp t0)) \<and>
      monitor (run P es (initialApp t0)) = None"
    using a b by (auto simp: isMonitoringCapable_def canMonitor_def)
  have d: "r_inputMode r = UPLOAD \<and> r_uploadType r \<noteq> Some VIDEO \<longrightarrow>
      monitor (monitorEffect r s) = None \<and> cycles (monitorEffect r s) = cycles s"
    by (simp add: monitorEffect_monitor canMonitor_def)
  show ?thesis
    using a b c d step_static_image(1,2) [of res s P] step_static_image(3-5) [of c u s P]
    by simp
qed

theorem auto_monitoring_gated_witness:
  "isAutoMonitoring (run fixedPlatform overlapTrace (initialApp exampleTelemetry)) \<and>
   isMonitoringCapable (run fixedPlatform overlapTrace (initialApp exampleTelemetry)) \<and>
   monitor (run fixedPlatform overlapTrace (initialApp exampleTelemetry)) = Some armedRender \<and>
   \<not> isAutoMonitoring (run fixedPlatform [] (initialApp exampleTelemetry)) \<and>
   monitor (run fixedPlatform [] (initialApp exampleTelemetry)) = None \<and>
   \<not> isAutoMonitoring (step fixedPlatform (FileLoaded (Some ''data:image/png;base64,AAAA'')) pendingUpload) \<and>
   \<not> isAutoMonitoring (step fixedPlatform (GallerySelect ''Experiment'' ''https://placehold.co/600x400'') pendingUpload) \<and>
   monitor (monitorEffect (render (pendingUpload\<lparr>isAutoMonitoring := True\<rparr>)) pendingUpload) = None"
proof -
  have a: "isAutoMonitoring (run fixedPlatform overlapTrace (initialApp exampleTelemetry))"
    "monitor (run fixedPlatform overlapTrace (initialApp exampleTelemetry)) = Some armedRender"
    by (simp_all add: run_loading cameraLoading_facts)
  have b: "inputMode (run fixedPlatform [] (initialApp exampleTelemetry)) = UPLOAD"
    "uploadType (run fixedPlatform [] (initialApp exampleTelemetry)) \<noteq> Some VIDEO"
    by (simp_all add: initialApp_def)
  have c: "0 < fileReaders pendingUpload" "isGalleryOpen pendingUpload"
    "r_inputMode (render (pendingUpload\<lparr>isAutoMonitoring := True\<rparr>)) = UPLOAD"
    "r_uploadType (render (pendingUpload\<lparr>isAutoMonitoring := True\<rparr>)) \<noteq> Some VIDEO"
    by (simp_all add: pendingUpload_def initialApp_def)
  show ?thesis
    using auto_monitoring_gated [of fixedPlatform overlapTrace exampleTelemetry pendingUpload
        "Some ''data:image/png;base64,AAAA''" "''Experiment''" "''https://placehold.co/600x400''"
        "render (pendingUpload\<lparr>isAutoMonitoring := True\<rparr>)"]
      auto_monitoring_gated [of fixedPlatform "[]" exampleTelemetry pendingUpload
        "Some ''data:image/png;base64,AAAA''" "''Experiment''" "''https://placehold.co/600x400''"
        "render (pendingUpload\<lparr>isAutoMonitoring := True\<rparr>)"]
      a b c
    by (simp del: render_fields)
qed

end
